theory Spec2Isabelle
  imports Complex_Main "HOL-Library.Word"
begin

unbundle bit_operations_syntax

section \<open>Bytes, buffers and errors\<close>

text \<open>
  A Node \<open>Buffer\<close> is a list of bytes. A \<open>bigint\<close> that holds a 64-bit hash or UID
  (\<open>uint64le\<close>, \<open>city64\<close>) is a 64-bit word; sizes, offsets and counts are naturals.
  Every \<open>throw\<close> and failed \<open>assert\<close> of the source is a value of \<open>error\<close>.
\<close>

type_synonym byte = "8 word"
type_synonym bigint64 = "64 word"

datatype error =
    AssertionError
  | RangeError
  | ZlibError
  | UnknownCompressionValue nat
  | UnsupportedCompression nat
  | GdeflateError int
  | UnreachableError nat
  | PreconditionError

text \<open>
  \<open>fs.readSync(fd, buffer, {length, position})\<close> on a buffer made by
  \<open>Buffer.alloc(length)\<close>: the buffer starts zero-filled, as many bytes as the file has
  at \<open>position\<close> (at most \<open>length\<close>) are copied to its start, and the count is returned.
\<close>

definition readSync :: "byte list \<Rightarrow> nat \<Rightarrow> nat \<Rightarrow> nat \<times> byte list" where
  "readSync file len position =
     (let got = take len (drop position file)
      in (length got, got @ replicate (len - length got) 0))"

section \<open>Key hashing and the hash-indexed store\<close>

text \<open>
  \<open>salt + key\<close> with a number \<open>salt\<close> and a string \<open>key\<close> is JavaScript string
  concatenation: the number is converted by \<open>Number::toString\<close>. The salt is read by
  \<open>r.int16le\<close>, an integer, for which the conversion is the decimal numeral with a
  leading minus sign for a negative value.
\<close>

definition digit_char :: "nat \<Rightarrow> char" where
  "digit_char d = char_of (48 + d)"

fun digits_of_nat :: "nat \<Rightarrow> string" where
  "digits_of_nat n =
     (if n < 10 then [digit_char n]
      else digits_of_nat (n div 10) @ [digit_char (n mod 10)])"

declare digits_of_nat.simps [simp del]

definition Number_toString :: "int \<Rightarrow> string" where
  "Number_toString i =
     (if i < 0 then CHR ''-'' # digits_of_nat (nat (- i)) else digits_of_nat (nat i))"

text \<open>The value a string of decimal digits denotes (used to state what the conversion means).\<close>

definition decimal_value :: "string \<Rightarrow> nat" where
  "decimal_value s = foldl (\<lambda>acc c. 10 * acc + (of_char c - 48)) 0 s"

text \<open>
  \<open>new Map(iterable)\<close> inserts the pairs in order; a later pair with an equal key
  overwrites the earlier one.
\<close>

definition Map_of_entries :: "('k \<times> 'v) list \<Rightarrow> ('k \<rightharpoonup> 'v)" where
  "Map_of_entries kvs = foldl (\<lambda>m (k, v). m(k \<mapsto> v)) Map.empty kvs"

text \<open>\<open>store_key\<close> names the argument of \<open>city64\<close>: \<open>salt === 0 ? key : salt + key\<close>.\<close>

definition store_key :: "int \<Rightarrow> string \<Rightarrow> string" where
  "store_key salt key = (if salt = 0 then key else Number_toString salt @ key)"

text \<open>
  \<open>createStore(values, salt)\<close>. The native binding \<open>city64\<close> is a parameter; \<open>hash\<close>
  reads the field \<open>v.hash\<close>. The returned store is its \<open>get\<close> function.
\<close>

definition createStore ::
  "(string \<Rightarrow> bigint64) \<Rightarrow> ('v \<Rightarrow> bigint64) \<Rightarrow> 'v list \<Rightarrow> int \<Rightarrow> (string \<Rightarrow> 'v option)" where
  "createStore city64 hash values salt =
     (let m = Map_of_entries (map (\<lambda>v. (hash v, v)) values)
      in (\<lambda>key. m (city64 (store_key salt key))))"

section \<open>Reading the tables of a V2 archive\<close>

record FileHeaderV2 =
  magic :: string
  version :: int
  salt :: int
  hashMethod :: string
  entryTableCount :: nat
  entryTableCompressedSize :: nat
  metadataTableSize :: nat
  metadataTableCompressedSize :: nat
  entryTableOffset :: nat
  metadataTableOffset :: nat
  securityDescriptorOffset :: nat
  hashfsV2Platform :: nat

definition isValid :: "FileHeaderV2 \<Rightarrow> bool" where
  "isValid h = (magic h = ''SCS#'' \<and> hashMethod h = ''CITY'' \<and> version h = 2)"

text \<open>\<open>EntryV2Header.size()\<close>: uint64 + uint32 + uint16 + uint8 bitfield + uint8.\<close>

definition EntryV2Header_size :: nat where
  "EntryV2Header_size = 8 + 4 + 2 + 1 + 1"

text \<open>
  \<open>ScsArchiveV2.readData\<close>. \<open>zlib.inflateSync\<close> is a parameter that returns the
  inflated bytes or throws. The count returned by \<open>readSync\<close> is ignored here.
\<close>

definition readData ::
  "(byte list \<Rightarrow> error + byte list) \<Rightarrow> byte list \<Rightarrow> nat \<Rightarrow> nat \<Rightarrow> nat \<Rightarrow> error + byte list" where
  "readData inflateSync file offset compressedSize uncompressedSize =
     (let buffer = snd (readSync file compressedSize offset)
      in if compressedSize \<noteq> uncompressedSize then inflateSync buffer else Inr buffer)"

text \<open>The two calls: the entry table in \<open>parseEntries\<close>, the metadata table in \<open>createMetadataMap\<close>.\<close>

definition readEntryTable ::
  "(byte list \<Rightarrow> error + byte list) \<Rightarrow> byte list \<Rightarrow> FileHeaderV2 \<Rightarrow> error + byte list" where
  "readEntryTable inflateSync file h =
     readData inflateSync file (entryTableOffset h) (entryTableCompressedSize h)
       (EntryV2Header_size * entryTableCount h)"

definition readMetadataTable ::
  "(byte list \<Rightarrow> error + byte list) \<Rightarrow> byte list \<Rightarrow> FileHeaderV2 \<Rightarrow> error + byte list" where
  "readMetadataTable inflateSync file h =
     readData inflateSync file (metadataTableOffset h) (metadataTableCompressedSize h)
       (metadataTableSize h)"

section \<open>Reading an entry\<close>

datatype Compression = NONE | ZLIB | ZLIB_HEADERLESS | GDEFLATE | ZSTD

fun Compression_value :: "Compression \<Rightarrow> nat" where
  "Compression_value NONE = 0"
| "Compression_value ZLIB = 1"
| "Compression_value ZLIB_HEADERLESS = 2"
| "Compression_value GDEFLATE = 3"
| "Compression_value ZSTD = 4"

definition toCompression :: "nat \<Rightarrow> error + Compression" where
  "toCompression c =
     (if c = 0 then Inr NONE
      else if c = 1 then Inr ZLIB
      else if c = 2 then Inr ZLIB_HEADERLESS
      else if c = 3 then Inr GDEFLATE
      else if c = 4 then Inr ZSTD
      else Inl (UnknownCompressionValue c))"

record EntryV2Metadata =
  hash :: bigint64
  offset :: nat
  compressedSize :: nat
  uncompressedSize :: nat
  compression :: Compression
  isDirectory :: bool

text \<open>\<open>TileStreamHeader.size()\<close>: uint8 id, uint8 magic, uint16 numTiles, uint32 tileSizeIdx, uint32 lastTileSize.\<close>

definition TileStreamHeader_size :: nat where
  "TileStreamHeader_size = 1 + 1 + 2 + 4 + 4"

text \<open>
  The native decoder \<open>gdeflate(inBuffer, outBuffer)\<close> is a parameter: from the input and
  the output buffer as allocated it gives its result code and the bytes it stored. It
  writes into the caller's buffer, whose length it cannot change: \<open>overwrite\<close> puts the
  stored bytes over the start of the buffer and keeps the buffer's length.
\<close>

definition overwrite :: "byte list \<Rightarrow> byte list \<Rightarrow> byte list" where
  "overwrite buf stored = take (length buf) stored @ drop (length stored) buf"

text \<open>
  \<open>ScsArchiveEntryV2.read\<close>. \<open>rawData.buffer.slice(n)\<close> is the raw data from byte \<open>n\<close>
  on (empty when the raw data is shorter): \<open>Buffer.alloc\<close> never takes its memory from
  the shared pool, so the buffer's \<open>ArrayBuffer\<close> holds exactly the raw data.
\<close>

definition EntryV2_read ::
  "(byte list \<Rightarrow> error + byte list) \<Rightarrow> (byte list \<Rightarrow> byte list \<Rightarrow> int \<times> byte list)
     \<Rightarrow> byte list \<Rightarrow> EntryV2Metadata \<Rightarrow> error + byte list" where
  "EntryV2_read inflateSync gdeflate file md =
     (let (bytesRead, rawData) = readSync file (compressedSize md) (offset md)
      in if bytesRead \<noteq> length rawData then Inl AssertionError
         else (case compression md of
             NONE \<Rightarrow> Inr rawData
           | ZLIB \<Rightarrow> inflateSync rawData
           | GDEFLATE \<Rightarrow>
               (let outputBuffer = replicate (uncompressedSize md) 0;
                    (result, stored) = gdeflate (drop TileStreamHeader_size rawData) outputBuffer
                in if result \<noteq> 0 then Inl (GdeflateError result)
                   else Inr (overwrite outputBuffer stored))
           | ZLIB_HEADERLESS \<Rightarrow> Inl (UnsupportedCompression (Compression_value (compression md)))
           | ZSTD \<Rightarrow> Inl (UnsupportedCompression (Compression_value (compression md)))))"

section \<open>Texture objects\<close>

text \<open>The decoded \<open>ImageMeta\<close> struct: \<open>width\<close>, \<open>height\<close> and the unpacked \<open>image\<close> word.\<close>

record ImageInfo =
  mipmapCount :: nat
  format :: nat
  isCube :: bool
  count :: nat
  pitchAlignment :: nat
  imageAlignment :: nat

record ImageMeta =
  width :: nat
  height :: nat
  image :: ImageInfo

text \<open>
  A \<open>uint32le\<close> field as restructure writes it: four bytes, least significant first, of
  the value modulo \<open>2^32\<close>. \<open>le_value\<close> reads such bytes back.
\<close>

definition u32le :: "nat \<Rightarrow> byte list" where
  "u32le n = [of_nat n, of_nat (n div 2 ^ 8), of_nat (n div 2 ^ 16), of_nat (n div 2 ^ 24)]"

definition le_value :: "byte list \<Rightarrow> nat" where
  "le_value bs = foldr (\<lambda>b acc. unat b + 256 * acc) bs 0"

definition string_bytes :: "string \<Rightarrow> byte list" where
  "string_bytes s = map (\<lambda>c. of_nat (of_char c)) s"

record DdsPixelFormat =
  pf_size :: nat
  pf_flags :: nat
  fourCc :: string
  rgbBitCount :: nat
  rBitMask :: nat
  gBitMask :: nat
  bBitMask :: nat
  aBitMask :: nat

record DdsHeader =
  dds_size :: nat
  dds_flags :: nat
  dds_height :: nat
  dds_width :: nat
  pitchOrLinearSize :: nat
  depth :: nat
  mipMapCount :: nat
  ddsPixelFormat :: DdsPixelFormat
  caps :: nat
  caps2 :: nat
  caps3 :: nat
  caps4 :: nat

record DdsHeaderDX10 =
  dxgiFormat :: nat
  resourceDimension :: nat
  miscFlag :: nat
  arraySize :: nat
  miscFlags2 :: nat

text \<open>
  Modelled from the spec: the struct declarations \<open>DdsHeader\<close> and \<open>DdsHeaderDX10\<close> of
  \<open>dds-parser\<close> are not among the sources. The spec gives a 124-byte legacy header (after the
  4-byte magic: 128 bytes) with the pixel-format fourCC at offset 84 of the file, and a
  20-byte DX10 extension. The fields are those the source passes to \<open>toBuffer\<close>, in
  that order, each a \<open>uint32le\<close>, the fourCC a 4-character string, \<open>reserved1\<close> 11 and
  \<open>reserved2\<close> 1 zero-filled 32-bit words: the layout of the DDS format.
\<close>

definition DdsPixelFormat_toBuffer :: "DdsPixelFormat \<Rightarrow> byte list" where
  "DdsPixelFormat_toBuffer pf =
     u32le (pf_size pf) @ u32le (pf_flags pf) @ take 4 (string_bytes (fourCc pf) @ replicate 4 0)
     @ u32le (rgbBitCount pf) @ u32le (rBitMask pf) @ u32le (gBitMask pf)
     @ u32le (bBitMask pf) @ u32le (aBitMask pf)"

definition DdsHeader_toBuffer :: "DdsHeader \<Rightarrow> byte list" where
  "DdsHeader_toBuffer h =
     u32le (dds_size h) @ u32le (dds_flags h) @ u32le (dds_height h) @ u32le (dds_width h)
     @ u32le (pitchOrLinearSize h) @ u32le (depth h) @ u32le (mipMapCount h)
     @ replicate (4 * 11) 0
     @ DdsPixelFormat_toBuffer (ddsPixelFormat h)
     @ u32le (caps h) @ u32le (caps2 h) @ u32le (caps3 h) @ u32le (caps4 h)
     @ replicate 4 0"

definition DdsHeader_size :: nat where
  "DdsHeader_size = 124"

definition DdsHeaderDX10_toBuffer :: "DdsHeaderDX10 \<Rightarrow> byte list" where
  "DdsHeaderDX10_toBuffer d =
     u32le (dxgiFormat d) @ u32le (resourceDimension d) @ u32le (miscFlag d)
     @ u32le (arraySize d) @ u32le (miscFlags2 d)"

definition DdsHeaderDX10_size :: nat where
  "DdsHeaderDX10_size = 20"

text \<open>
  Modelled from the spec: the enums of \<open>enum-dds-format\<close> are not among the sources. The spec
  names the dimension tag Texture2D and the misc flag TextureCube; their values are those
  of the DDS format.
\<close>

definition D3d10ResourceDimension_Texture2d :: nat where
  "D3d10ResourceDimension_Texture2d = 3"

definition D3d10ResourceMiscFlag_TextureCube :: nat where
  "D3d10ResourceMiscFlag_TextureCube = 4"

text \<open>
  \<open>source.copy(target, targetStart)\<close> copies as much of the source as fits from
  \<open>targetStart\<close> on; \<open>buf.write(string)\<close> does the same with the string's bytes at 0.
\<close>

definition Buffer_copy :: "byte list \<Rightarrow> byte list \<Rightarrow> nat \<Rightarrow> byte list" where
  "Buffer_copy source target targetStart =
     (if length target \<le> targetStart then target
      else take targetStart target @ take (length target - targetStart) source
           @ drop (targetStart + length source) target)"

definition Buffer_write :: "byte list \<Rightarrow> string \<Rightarrow> byte list" where
  "Buffer_write target s = Buffer_copy (string_bytes s) target 0"

text \<open>\<open>ScsArchiveTobjFile.read\<close>.\<close>

definition Tobj_header :: "ImageMeta \<Rightarrow> byte list \<Rightarrow> DdsHeader" where
  "Tobj_header imageMetadata ddsBytes =
     \<lparr>dds_size = DdsHeader_size, dds_flags = 0,
      dds_height = height imageMetadata, dds_width = width imageMetadata,
      pitchOrLinearSize = length ddsBytes, depth = 0,
      mipMapCount = mipmapCount (image imageMetadata),
      ddsPixelFormat = \<lparr>pf_size = 32, pf_flags = 4, fourCc = ''DX10'', rgbBitCount = 0,
        rBitMask = 0, gBitMask = 0, bBitMask = 0, aBitMask = 0\<rparr>,
      caps = 0, caps2 = 0, caps3 = 0, caps4 = 0\<rparr>"

definition Tobj_headerDX10 :: "ImageMeta \<Rightarrow> DdsHeaderDX10" where
  "Tobj_headerDX10 imageMetadata =
     \<lparr>dxgiFormat = format (image imageMetadata),
      resourceDimension = D3d10ResourceDimension_Texture2d,
      miscFlag = (if isCube (image imageMetadata) then D3d10ResourceMiscFlag_TextureCube else 0),
      arraySize = 1, miscFlags2 = 0\<rparr>"

definition Tobj_read ::
  "(byte list \<Rightarrow> error + byte list) \<Rightarrow> (byte list \<Rightarrow> byte list \<Rightarrow> int \<times> byte list)
     \<Rightarrow> byte list \<Rightarrow> EntryV2Metadata \<Rightarrow> ImageMeta \<Rightarrow> error + byte list" where
  "Tobj_read inflateSync gdeflate file md imageMetadata =
     (case EntryV2_read inflateSync gdeflate file md of
        Inl e \<Rightarrow> Inl e
      | Inr ddsBytes \<Rightarrow>
          (let header = DdsHeader_toBuffer (Tobj_header imageMetadata ddsBytes);
               headerDX10 = DdsHeaderDX10_toBuffer (Tobj_headerDX10 imageMetadata);
               ddsFile0 = replicate (4 + DdsHeader_size + DdsHeaderDX10_size + length ddsBytes) 0;
               ddsFile1 = Buffer_write ddsFile0 ''DDS '';
               ddsFile2 = Buffer_copy header ddsFile1 4;
               ddsFile3 = Buffer_copy headerDX10 ddsFile2 128;
               ddsFile4 = Buffer_copy ddsBytes ddsFile3 (4 + DdsHeader_size + DdsHeaderDX10_size)
           in Inr ddsFile4))"

section \<open>Decoding the tables\<close>

text \<open>
  restructure decodes a struct field by field from a stream over the buffer. A read past
  the end of the buffer throws (the \<open>DataView\<close> range check); a \<open>Reserved\<close> field only
  advances the position. A decoder takes the bytes left and gives the value and the rest.
\<close>

definition andThen :: "error + 'a \<Rightarrow> ('a \<Rightarrow> error + 'b) \<Rightarrow> error + 'b" where
  "andThen r f = (case r of Inl e \<Rightarrow> Inl e | Inr v \<Rightarrow> f v)"

definition read_uint :: "nat \<Rightarrow> byte list \<Rightarrow> error + (nat \<times> byte list)" where
  "read_uint k bs =
     (if length bs < k then Inl RangeError else Inr (le_value (take k bs), drop k bs))"

definition skip_reserved :: "nat \<Rightarrow> byte list \<Rightarrow> byte list" where
  "skip_reserved k bs = drop k bs"

text \<open>\<open>buffer.subarray(start, end)\<close>: both ends are clamped to the buffer.\<close>

definition subarray :: "byte list \<Rightarrow> nat \<Rightarrow> nat \<Rightarrow> byte list" where
  "subarray b start fin = take (fin - start) (drop start b)"

record EntryV2Header =
  entry_hash :: bigint64
  metadataIndex :: nat
  metadataCount :: nat
  flag_isDirectory :: bool
  someByte :: nat

definition EntryV2Header_decode :: "byte list \<Rightarrow> error + (EntryV2Header \<times> byte list)" where
  "EntryV2Header_decode bs =
     andThen (read_uint 8 bs) (\<lambda>(h, b1).
     andThen (read_uint 4 b1) (\<lambda>(mi, b2).
     andThen (read_uint 2 b2) (\<lambda>(mc, b3).
     andThen (read_uint 1 b3) (\<lambda>(fl, b4).
     andThen (read_uint 1 b4) (\<lambda>(sb, b5).
       Inr (\<lparr>entry_hash = of_nat h, metadataIndex = mi, metadataCount = mc,
             flag_isDirectory = odd fl, someByte = sb\<rparr>, b5))))))"

fun Array_decode ::
  "(byte list \<Rightarrow> error + ('a \<times> byte list)) \<Rightarrow> nat \<Rightarrow> byte list \<Rightarrow> error + 'a list" where
  "Array_decode dec 0 bs = Inr []"
| "Array_decode dec (Suc n) bs =
     (case dec bs of
        Inl e \<Rightarrow> Inl e
      | Inr (x, rest) \<Rightarrow>
          (case Array_decode dec n rest of Inl e \<Rightarrow> Inl e | Inr xs \<Rightarrow> Inr (x # xs)))"

text \<open>The values of \<open>MetadataType\<close>; the table's type byte is cast to it unchecked.\<close>

definition IMG :: nat where [simp]: "IMG = 1"
definition SAMPLE :: nat where [simp]: "SAMPLE = 2"
definition MIP_PROXY :: nat where [simp]: "MIP_PROXY = 3"
definition INLINE_DIRECTORY :: nat where [simp]: "INLINE_DIRECTORY = 4"
definition PMA_INFO :: nat where [simp]: "PMA_INFO = 5"
definition PMG_INFO :: nat where [simp]: "PMG_INFO = 6"
definition PLAIN :: nat where [simp]: "PLAIN = 128"
definition DIRECTORY :: nat where [simp]: "DIRECTORY = 129"
definition MIP_0 :: nat where [simp]: "MIP_0 = 130"
definition MIP_1 :: nat where [simp]: "MIP_1 = 131"
definition MIP_TAIL :: nat where [simp]: "MIP_TAIL = 132"

text \<open>
  The packed image word. \<open>>>\<close> is JavaScript's shift on the 32-bit signed reading of
  the number, \<open>signed_drop_bit\<close>.
\<close>

definition ImageInfo_of :: "32 word \<Rightarrow> ImageInfo" where
  "ImageInfo_of n =
     \<lparr>mipmapCount = 1 + unat (n AND 0xf),
      format = unat (signed_drop_bit 4 n AND 0xff),
      isCube = (signed_drop_bit 12 n AND 3 \<noteq> 0),
      count = unat (signed_drop_bit 14 n AND 0x3f) + 1,
      pitchAlignment = 2 ^ unat (signed_drop_bit 20 n AND 0xf),
      imageAlignment = 2 ^ unat (signed_drop_bit 24 n AND 0xf)\<rparr>"

definition ImageMeta_decode :: "byte list \<Rightarrow> error + ImageMeta" where
  "ImageMeta_decode bs =
     andThen (read_uint 2 bs) (\<lambda>(w, b1).
     andThen (read_uint 2 b1) (\<lambda>(h, b2).
     andThen (read_uint 4 b2) (\<lambda>(n, b3).
       Inr \<lparr>width = w + 1, height = h + 1, image = ImageInfo_of (of_nat n)\<rparr>)))"

record SampleMeta =
  magFilter :: nat
  minFilter :: nat
  mipFilter :: nat
  addr_u :: nat
  addr_v :: nat
  addr_w :: nat

definition SampleMeta_of :: "32 word \<Rightarrow> SampleMeta" where
  "SampleMeta_of n =
     \<lparr>magFilter = unat (n AND 1),
      minFilter = unat (signed_drop_bit 1 n AND 1),
      mipFilter = unat (signed_drop_bit 2 n AND 3),
      addr_u = unat (signed_drop_bit 4 n AND 7),
      addr_v = unat (signed_drop_bit 7 n AND 7),
      addr_w = unat (signed_drop_bit 10 n AND 7)\<rparr>"

definition SampleMeta_decode :: "byte list \<Rightarrow> error + SampleMeta" where
  "SampleMeta_decode bs = andThen (read_uint 4 bs) (\<lambda>(n, b1). Inr (SampleMeta_of (of_nat n)))"

text \<open>The \<open>floatle\<close> fields are kept as their 32 bits; nothing in the reader looks at them.\<close>

record PmaInfoMeta =
  pma_flag :: nat
  animationLength :: "32 word"
  pma_skeletonHash :: bigint64
  bSphereRad :: "32 word"
  bSphereOrgX :: "32 word"
  bSphereOrgY :: "32 word"
  bSphereOrgZ :: "32 word"

definition PmaInfoMeta_decode :: "byte list \<Rightarrow> error + PmaInfoMeta" where
  "PmaInfoMeta_decode bs =
     andThen (read_uint 4 bs) (\<lambda>(fl, b1).
     andThen (read_uint 4 b1) (\<lambda>(al, b2).
     andThen (read_uint 8 b2) (\<lambda>(sh, b3).
     andThen (read_uint 4 b3) (\<lambda>(rad, b4).
     andThen (read_uint 4 b4) (\<lambda>(ox, b5).
     andThen (read_uint 4 b5) (\<lambda>(oy, b6).
     andThen (read_uint 4 b6) (\<lambda>(oz, b7).
       Inr \<lparr>pma_flag = fl, animationLength = of_nat al, pma_skeletonHash = of_nat sh,
            bSphereRad = of_nat rad, bSphereOrgX = of_nat ox, bSphereOrgY = of_nat oy,
            bSphereOrgZ = of_nat oz\<rparr>)))))))"

record PmgInfoMeta =
  pmg_skeletonHash :: bigint64

definition PmgInfoMeta_decode :: "byte list \<Rightarrow> error + PmgInfoMeta" where
  "PmgInfoMeta_decode bs =
     andThen (read_uint 8 bs) (\<lambda>(sh, b1). Inr \<lparr>pmg_skeletonHash = of_nat sh\<rparr>)"

record PlainMeta =
  plain_compressedSize :: nat
  plain_compression :: Compression
  plain_size :: nat
  plain_offset :: nat

definition PlainMeta_decode :: "byte list \<Rightarrow> error + PlainMeta" where
  "PlainMeta_decode bs =
     andThen (read_uint 3 bs) (\<lambda>(cs, b1).
     andThen (read_uint 1 b1) (\<lambda>(c, b2).
     andThen (toCompression (c div 2 ^ 4)) (\<lambda>comp.
     andThen (read_uint 3 b2) (\<lambda>(sz, b3).
     andThen (read_uint 4 (skip_reserved 4 (skip_reserved 1 b3))) (\<lambda>(off, b4).
       Inr \<lparr>plain_compressedSize = cs, plain_compression = comp, plain_size = sz,
            plain_offset = off * 16\<rparr>)))))"

datatype MetadataPayload =
    ImagePayload ImageMeta
  | SamplePayload SampleMeta
  | PmaInfoPayload PmaInfoMeta
  | PmgInfoPayload PmgInfoMeta
  | PlainPayload PlainMeta

text \<open>A \<open>MetadataEntry\<close>: the field \<open>version\<close> (the type tag) and the decoded struct.\<close>

record MetadataEntry =
  version_tag :: nat
  meta_payload :: MetadataPayload

definition MetadataEntryHeader_size :: nat where
  "MetadataEntryHeader_size = 3 + 1"

definition MetadataEntryHeader_decode :: "byte list \<Rightarrow> error + (nat \<times> nat)" where
  "MetadataEntryHeader_decode bs =
     andThen (read_uint 3 bs) (\<lambda>(index, b1).
     andThen (read_uint 1 b1) (\<lambda>(type, b2). Inr (index, type)))"

text \<open>The descriptor chosen for an informative type: its size and its decoder.\<close>

definition descriptor_size :: "nat \<Rightarrow> nat" where
  "descriptor_size type =
     (if type = IMG then 8 else if type = SAMPLE then 4 else if type = PMA_INFO then 32
      else if type = PMG_INFO then 8 else 16)"

definition descriptor_decode :: "nat \<Rightarrow> byte list \<Rightarrow> error + MetadataPayload" where
  "descriptor_decode type bs =
     (if type = IMG then andThen (ImageMeta_decode bs) (\<lambda>m. Inr (ImagePayload m))
      else if type = SAMPLE then andThen (SampleMeta_decode bs) (\<lambda>m. Inr (SamplePayload m))
      else if type = PMA_INFO then andThen (PmaInfoMeta_decode bs) (\<lambda>m. Inr (PmaInfoPayload m))
      else if type = PMG_INFO then andThen (PmgInfoMeta_decode bs) (\<lambda>m. Inr (PmgInfoPayload m))
      else andThen (PlainMeta_decode bs) (\<lambda>m. Inr (PlainPayload m)))"

section \<open>The metadata map\<close>

text \<open>
  The state of the loops of \<open>createMetadataMap\<close>: the map being filled and the set of
  skipped type tags, a JavaScript \<open>Set\<close> (insertion order, no duplicates).
\<close>

record MetaState =
  metadataMap :: "nat \<rightharpoonup> MetadataEntry"
  skippedMetaTypes :: "nat list"

definition Set_add :: "'a \<Rightarrow> 'a list \<Rightarrow> 'a list" where
  "Set_add v vs = (if v \<in> set vs then vs else vs @ [v])"

text \<open>One turn of the inner loop: the metadata header number \<open>i\<close> of an entry.\<close>

definition metadataStep :: "byte list \<Rightarrow> EntryV2Header \<Rightarrow> nat \<Rightarrow> MetaState \<Rightarrow> error + MetaState" where
  "metadataStep metadataTable header i st =
     (let metadataHeaderByteOffset = 4 * (metadataIndex header + i)
      in andThen (MetadataEntryHeader_decode
            (subarray metadataTable metadataHeaderByteOffset
               (metadataHeaderByteOffset + MetadataEntryHeader_size)))
         (\<lambda>(index, type).
            if type = IMG \<or> type = SAMPLE \<or> type = PLAIN \<or> type = DIRECTORY
               \<or> type = MIP_TAIL \<or> type = PMA_INFO \<or> type = PMG_INFO
            then (let metadataEntryByteOffset = 4 * index
                  in andThen (descriptor_decode type
                        (subarray metadataTable metadataEntryByteOffset
                           (metadataEntryByteOffset + descriptor_size type)))
                     (\<lambda>p. Inr (st\<lparr>metadataMap := (metadataMap st)
                              (metadataIndex header + i \<mapsto> \<lparr>version_tag = type, meta_payload = p\<rparr>)\<rparr>)))
            else if type = MIP_0 \<or> type = MIP_1 \<or> type = MIP_PROXY \<or> type = INLINE_DIRECTORY
            then Inr (st\<lparr>skippedMetaTypes := Set_add type (skippedMetaTypes st)\<rparr>)
            else Inl (UnreachableError type)))"

text \<open>A \<open>for\<close> loop over a list whose body may throw: the first error ends it.\<close>

fun forEach :: "('a \<Rightarrow> 's \<Rightarrow> error + 's) \<Rightarrow> 'a list \<Rightarrow> 's \<Rightarrow> error + 's" where
  "forEach body [] st = Inr st"
| "forEach body (v # vs) st =
     (case body v st of Inl e \<Rightarrow> Inl e | Inr st' \<Rightarrow> forEach body vs st')"

text \<open>What the logger receives: \<open>logger.warn('skipped metadata types', skippedMetaTypes)\<close>.\<close>

datatype LogMessage = Warn string "nat list"

definition metadataLoops :: "byte list \<Rightarrow> EntryV2Header list \<Rightarrow> error + MetaState" where
  "metadataLoops metadataTable entryHeaders =
     forEach (\<lambda>header st.
         forEach (\<lambda>i st. metadataStep metadataTable header i st) [0..<metadataCount header] st)
       entryHeaders \<lparr>metadataMap = Map.empty, skippedMetaTypes = []\<rparr>"

definition createMetadataMap ::
  "(byte list \<Rightarrow> error + byte list) \<Rightarrow> byte list \<Rightarrow> FileHeaderV2 \<Rightarrow> EntryV2Header list
     \<Rightarrow> error + ((nat \<rightharpoonup> MetadataEntry) \<times> LogMessage list)" where
  "createMetadataMap inflateSync file h entryHeaders =
     andThen (readMetadataTable inflateSync file h) (\<lambda>metadataTable.
     andThen (metadataLoops metadataTable entryHeaders) (\<lambda>st.
       Inr (metadataMap st,
            if skippedMetaTypes st \<noteq> []
            then [Warn ''skipped metadata types'' (skippedMetaTypes st)] else [])))"

section \<open>Materializing entries\<close>

text \<open>
  The three entry classes: \<open>ScsArchiveDirectoryV2\<close> with the names its constructor reads,
  \<open>ScsArchiveFileV2\<close>, and \<open>ScsArchiveTobjFile\<close> with its image descriptor.
\<close>

datatype Entry =
    Directory EntryV2Metadata "string list" "string list"
  | File EntryV2Metadata
  | TobjFile EntryV2Metadata ImageMeta

fun Entry_metadata :: "Entry \<Rightarrow> EntryV2Metadata" where
  "Entry_metadata (Directory md subdirectories files) = md"
| "Entry_metadata (File md) = md"
| "Entry_metadata (TobjFile md imageMetadata) = md"

definition Entry_hash :: "Entry \<Rightarrow> bigint64" where
  "Entry_hash e = hash (Entry_metadata e)"

fun Entry_isDirectoryType :: "Entry \<Rightarrow> bool" where
  "Entry_isDirectoryType (Directory md subdirectories files) = True"
| "Entry_isDirectoryType (File md) = False"
| "Entry_isDirectoryType (TobjFile md imageMetadata) = False"

definition assertExists :: "'a option \<Rightarrow> error + 'a" where
  "assertExists v = (case v of None \<Rightarrow> Inl AssertionError | Some a \<Rightarrow> Inr a)"

text \<open>
  \<open>DecodeStream.readBuffer(length)\<close> slices the buffer at the position (clamped) and
  advances the position by \<open>length\<close>. \<open>toString()\<close> decodes UTF-8; the model keeps a
  decoded name as its UTF-8 bytes, one \<open>char\<close> each, on which \<open>startsWith('/')\<close> and
  \<open>substring(1)\<close> act as on the decoded string. This is exact for names that are valid
  UTF-8; bytes that are not (which \<open>toString()\<close> replaces by U+FFFD) are kept as they are.
\<close>

definition readBuffer :: "byte list \<Rightarrow> nat \<Rightarrow> nat \<Rightarrow> byte list \<times> nat" where
  "readBuffer buffer pos len = (subarray buffer pos (pos + len), pos + len)"

definition Buffer_toString :: "byte list \<Rightarrow> string" where
  "Buffer_toString b = map (\<lambda>v. char_of (unat v)) b"

fun readNames ::
  "byte list \<Rightarrow> nat \<Rightarrow> nat list \<Rightarrow> string list \<Rightarrow> string list \<Rightarrow> string list \<times> string list" where
  "readNames buffer pos [] subdirectories files = (subdirectories, files)"
| "readNames buffer pos (stringLength # rest) subdirectories files =
     (let (b, pos') = readBuffer buffer pos stringLength;
          str = Buffer_toString b
      in if str \<noteq> [] \<and> hd str = CHR ''/''
         then readNames buffer pos' rest (subdirectories @ [tl str]) files
         else readNames buffer pos' rest subdirectories (files @ [str]))"

text \<open>The constructor of \<open>ScsArchiveDirectoryV2\<close>, which reads the entry.\<close>

definition ScsArchiveDirectoryV2_new ::
  "(byte list \<Rightarrow> error + byte list) \<Rightarrow> (byte list \<Rightarrow> byte list \<Rightarrow> int \<times> byte list)
     \<Rightarrow> byte list \<Rightarrow> EntryV2Metadata \<Rightarrow> error + Entry" where
  "ScsArchiveDirectoryV2_new inflateSync gdeflate file md =
     andThen (EntryV2_read inflateSync gdeflate file md) (\<lambda>data.
       let (b4, pos1) = readBuffer data 0 4
       in if length b4 < 4 then Inl RangeError
          else (let numStrings = le_value b4;
                    (stringLengths, pos2) = readBuffer data pos1 numStrings;
                    (subdirectories, files) = readNames data pos2 (map unat stringLengths) [] []
                in Inr (Directory md subdirectories files)))"

text \<open>
  \<open>createTobjEntry\<close>. The casts of the found entries to \<open>ImageMeta\<close> and \<open>PlainMeta\<close>
  are unchecked in the source; in a map built by \<open>createMetadataMap\<close> an \<open>IMG\<close> entry
  always holds an image descriptor and a \<open>MIP_TAIL\<close> entry a plain one, and the last
  branch is there only to make the function total.
\<close>

definition createTobjEntry :: "EntryV2Header \<Rightarrow> (nat \<rightharpoonup> MetadataEntry) \<Rightarrow> error + Entry" where
  "createTobjEntry header mdMap =
     (if \<not> (\<not> flag_isDirectory header \<and> metadataCount header = 3) then Inl PreconditionError
      else
        andThen (assertExists (mdMap (metadataIndex header))) (\<lambda>m0.
        andThen (assertExists (mdMap (metadataIndex header + 1))) (\<lambda>m1.
        andThen (assertExists (mdMap (metadataIndex header + 2))) (\<lambda>m2.
        andThen (assertExists (List.find (\<lambda>m. version_tag m = IMG) [m0, m1, m2])) (\<lambda>imageMeta.
        andThen (assertExists (List.find (\<lambda>m. version_tag m = SAMPLE) [m0, m1, m2])) (\<lambda>sampleMeta.
        andThen (assertExists (List.find (\<lambda>m. version_tag m = MIP_TAIL) [m0, m1, m2])) (\<lambda>plainMeta.
          (case (meta_payload imageMeta, meta_payload plainMeta) of
             (ImagePayload im, PlainPayload pm) \<Rightarrow>
               Inr (TobjFile
                 \<lparr>hash = entry_hash header, offset = plain_offset pm,
                  compressedSize = plain_compressedSize pm, uncompressedSize = plain_size pm,
                  compression = plain_compression pm, isDirectory = flag_isDirectory header\<rparr> im)
           | _ \<Rightarrow> Inl AssertionError))))))))"

definition createEntryV2 ::
  "(byte list \<Rightarrow> error + byte list) \<Rightarrow> (byte list \<Rightarrow> byte list \<Rightarrow> int \<times> byte list)
     \<Rightarrow> byte list \<Rightarrow> EntryV2Header \<Rightarrow> (nat \<rightharpoonup> MetadataEntry) \<Rightarrow> error + Entry" where
  "createEntryV2 inflateSync gdeflate file header mdMap =
     (if metadataCount header = 3 then createTobjEntry header mdMap
      else
        andThen (assertExists (mdMap (metadataIndex header))) (\<lambda>assocMetadata.
          if flag_isDirectory header \<and> version_tag assocMetadata \<noteq> DIRECTORY
          then Inl AssertionError
          else if \<not> (version_tag assocMetadata = PLAIN \<or> version_tag assocMetadata = DIRECTORY)
          then Inl AssertionError
          else (case meta_payload assocMetadata of
             PlainPayload plainMeta \<Rightarrow>
               (let metadata =
                  \<lparr>hash = entry_hash header, offset = plain_offset plainMeta,
                   compressedSize = plain_compressedSize plainMeta,
                   uncompressedSize = plain_size plainMeta,
                   compression = plain_compression plainMeta,
                   isDirectory = flag_isDirectory header\<rparr>
                in if isDirectory metadata
                   then ScsArchiveDirectoryV2_new inflateSync gdeflate file metadata
                   else Inr (File metadata))
           | _ \<Rightarrow> Inl AssertionError)))"

record Entries =
  directories :: "string \<Rightarrow> Entry option"
  files :: "string \<Rightarrow> Entry option"

text \<open>The archive object: its header and the cached result of \<open>parseEntries\<close>.\<close>

record ScsArchiveV2 =
  archive_header :: FileHeaderV2
  archive_entries :: "Entries option"

definition createEntries ::
  "(byte list \<Rightarrow> error + byte list) \<Rightarrow> (byte list \<Rightarrow> byte list \<Rightarrow> int \<times> byte list)
     \<Rightarrow> byte list \<Rightarrow> EntryV2Header list \<Rightarrow> (nat \<rightharpoonup> MetadataEntry)
     \<Rightarrow> error + (Entry list \<times> Entry list)" where
  "createEntries inflateSync gdeflate file entryHeaders mdMap =
     forEach (\<lambda>header (ds, fs).
         andThen (createEntryV2 inflateSync gdeflate file header mdMap) (\<lambda>entry.
           if Entry_isDirectoryType entry then Inr (ds @ [entry], fs)
           else Inr (ds, fs @ [entry])))
       entryHeaders ([], [])"

text \<open>
  \<open>parseEntries\<close>: the entries, what was logged, and the archive with its cache filled.
\<close>

definition parseEntries ::
  "(byte list \<Rightarrow> error + byte list) \<Rightarrow> (byte list \<Rightarrow> byte list \<Rightarrow> int \<times> byte list)
     \<Rightarrow> (string \<Rightarrow> bigint64) \<Rightarrow> byte list \<Rightarrow> ScsArchiveV2
     \<Rightarrow> error + (Entries \<times> LogMessage list \<times> ScsArchiveV2)" where
  "parseEntries inflateSync gdeflate city64 file a =
     (if \<not> isValid (archive_header a) then Inl PreconditionError
      else (case archive_entries a of
          Some e \<Rightarrow> Inr (e, [], a)
        | None \<Rightarrow>
            andThen (readEntryTable inflateSync file (archive_header a)) (\<lambda>entryTable.
            andThen (Array_decode EntryV2Header_decode (entryTableCount (archive_header a))
                       entryTable) (\<lambda>entryHeaders.
            andThen (createMetadataMap inflateSync file (archive_header a) entryHeaders)
              (\<lambda>(mdMap, logged).
            andThen (createEntries inflateSync gdeflate file entryHeaders mdMap) (\<lambda>(ds, fs).
              (let e = \<lparr>directories = createStore city64 Entry_hash ds (salt (archive_header a)),
                        files = createStore city64 Entry_hash fs (salt (archive_header a))\<rparr>
               in Inr (e, logged, a\<lparr>archive_entries := Some e\<rparr>))))))))"

section \<open>Classes of type tags and the walk over the table\<close>

text \<open>
  The case labels of the \<open>switch\<close> in \<open>createMetadataMap\<close>, as sets: the informative
  types, whose descriptor is stored, and the skipped types. Every other tag reaches
  \<open>default\<close>.
\<close>

definition isInformativeType :: "nat \<Rightarrow> bool" where
  "isInformativeType t =
     (t = IMG \<or> t = SAMPLE \<or> t = PLAIN \<or> t = DIRECTORY \<or> t = MIP_TAIL
      \<or> t = PMA_INFO \<or> t = PMG_INFO)"

definition isSkippedType :: "nat \<Rightarrow> bool" where
  "isSkippedType t = (t = MIP_0 \<or> t = MIP_1 \<or> t = MIP_PROXY \<or> t = INLINE_DIRECTORY)"

text \<open>The type tag of metadata header \<open>i\<close> of an entry, when the table holds that header.\<close>

definition typeAt :: "byte list \<Rightarrow> EntryV2Header \<Rightarrow> nat \<Rightarrow> nat option" where
  "typeAt metadataTable header i =
     (case MetadataEntryHeader_decode
             (subarray metadataTable (4 * (metadataIndex header + i))
                (4 * (metadataIndex header + i) + MetadataEntryHeader_size)) of
        Inl e \<Rightarrow> None
      | Inr (index, type) \<Rightarrow> Some type)"

text \<open>The headers the two loops visit, in order: each entry with each of its indices.\<close>

definition walked :: "EntryV2Header list \<Rightarrow> (EntryV2Header \<times> nat) list" where
  "walked entryHeaders =
     concat (map (\<lambda>header. map (\<lambda>i. (header, i)) [0..<metadataCount header]) entryHeaders)"

section \<open>The map assembly pass: roads split by dividers\<close>

text \<open>
  JavaScript numbers that hold coordinates are modelled as real numbers; UIDs are 64-bit
  \<open>bigint\<close>s. Of a \<open>Node\<close> the pass reads \<open>x\<close>, \<open>y\<close>, \<open>z\<close>; the fields it does not read
  live in the record's extension and travel with the node.
\<close>

record Node =
  node_uid :: bigint64
  node_x :: real
  node_y :: real
  node_z :: real

text \<open>
  Modelled from the spec: \<open>distance\<close> of \<open>base/geom\<close> is not among the sources; the spec calls
  it the Euclidean distance of the two points' \<open>(x, y)\<close>.
\<close>

definition distance :: "'a Node_scheme \<Rightarrow> 'b Node_scheme \<Rightarrow> real" where
  "distance a b = sqrt ((node_x a - node_x b)\<^sup>2 + (node_y a - node_y b)\<^sup>2)"

text \<open>
  The items the scan looks at. Roads, terrains, buildings and curves all run from a start
  node to an end node; \<open>maybeDivided\<close> is an optional field of a road.
\<close>

record Segment =
  item_uid :: bigint64
  startNodeUid :: bigint64
  endNodeUid :: bigint64

record Road = Segment +
  maybeDivided :: "bool option"

record Building = Segment +
  scheme :: string

record Curve = Segment +
  model :: string

datatype Item =
    RoadItem Road
  | TerrainItem Segment
  | BuildingItem Building
  | CurveItem Curve
  | OtherItem bigint64

text \<open>The elements of \<open>sectorDividers\<close>: \<open>Terrain | Building | Curve\<close>.\<close>

datatype Divider = DTerrain Segment | DBuilding Building | DCurve Curve

fun divider_start :: "Divider \<Rightarrow> bigint64" where
  "divider_start (DTerrain t) = startNodeUid t"
| "divider_start (DBuilding b) = startNodeUid b"
| "divider_start (DCurve c) = startNodeUid c"

fun divider_end :: "Divider \<Rightarrow> bigint64" where
  "divider_end (DTerrain t) = endNodeUid t"
| "divider_end (DBuilding b) = endNodeUid b"
| "divider_end (DCurve c) = endNodeUid c"

fun isTerrain :: "Divider \<Rightarrow> bool" where
  "isTerrain (DTerrain t) = True"
| "isTerrain (DBuilding b) = False"
| "isTerrain (DCurve c) = False"

text \<open>The first inner loop of a sector: its roads and its dividers, in the order of the items.\<close>

fun partitionItems :: "Item list \<Rightarrow> Road list \<times> Divider list" where
  "partitionItems [] = ([], [])"
| "partitionItems (i # rest) =
     (let (sectorRoads, sectorDividers) = partitionItems rest
      in case i of
           RoadItem r \<Rightarrow> (r # sectorRoads, sectorDividers)
         | TerrainItem t \<Rightarrow> (sectorRoads, DTerrain t # sectorDividers)
         | BuildingItem b \<Rightarrow>
             if scheme b = ''scheme20'' then (sectorRoads, DBuilding b # sectorDividers)
             else (sectorRoads, sectorDividers)
         | CurveItem c \<Rightarrow>
             if model c = ''0i03a'' \<or> model c = ''0i03b''
             then (sectorRoads, DCurve c # sectorDividers)
             else (sectorRoads, sectorDividers)
         | OtherItem u \<Rightarrow> (sectorRoads, sectorDividers))"

definition threshold :: real where
  "threshold = 2"

definition splitsRoad ::
  "(bigint64 \<rightharpoonup> 'a Node_scheme) \<Rightarrow> 'a Node_scheme \<Rightarrow> 'a Node_scheme \<Rightarrow> Divider \<Rightarrow> bool" where
  "splitsRoad nodesByUid rStart rEnd t =
     (case (nodesByUid (divider_start t), nodesByUid (divider_end t)) of
        (Some tStart, Some tEnd) \<Rightarrow>
          (distance rStart tStart < threshold \<and> distance rEnd tEnd < threshold)
          \<or> (distance rStart tEnd < threshold \<and> distance rEnd tStart < threshold)
      | _ \<Rightarrow> False)"

text \<open>
  The loop over the roads of a sector: a road with an unknown end node is dropped, a road
  that some divider of the sector splits is pushed with \<open>maybeDivided: true\<close>, any other
  road is pushed as it is.
\<close>

definition flagRoad ::
  "(bigint64 \<rightharpoonup> 'a Node_scheme) \<Rightarrow> Divider list \<Rightarrow> Road \<Rightarrow> Road option" where
  "flagRoad nodesByUid sectorDividers r =
     (case (nodesByUid (startNodeUid r), nodesByUid (endNodeUid r)) of
        (Some rStart, Some rEnd) \<Rightarrow>
          if list_ex (splitsRoad nodesByUid rStart rEnd) sectorDividers
          then Some (r\<lparr>maybeDivided := Some True\<rparr>)
          else Some r
      | _ \<Rightarrow> None)"

record ScanState =
  scan_roads :: "Road list"
  scan_dividers :: "Divider list"
  scan_referencedNodeUids :: "bigint64 list"
  scan_splitCount :: nat

text \<open>
  One sector. The loop that adds the divider nodes to \<open>referencedNodeUids\<close> runs over
  all the dividers collected so far, not only this sector's.
\<close>

definition scanSector ::
  "(bigint64 \<rightharpoonup> 'a Node_scheme) \<Rightarrow> Item list \<Rightarrow> ScanState \<Rightarrow> ScanState" where
  "scanSector nodesByUid sectorItems st =
     (let (sectorRoads, sectorDividers) = partitionItems sectorItems;
          dividers' = scan_dividers st @ filter (\<lambda>d. \<not> isTerrain d) sectorDividers;
          referenced' = foldl (\<lambda>uids d. Set_add (divider_end d) (Set_add (divider_start d) uids))
                          (scan_referencedNodeUids st) dividers';
          pushed = List.map_filter (flagRoad nodesByUid sectorDividers) sectorRoads
      in \<lparr>scan_roads = scan_roads st @ pushed,
          scan_dividers = dividers',
          scan_referencedNodeUids = referenced',
          scan_splitCount = scan_splitCount st
            + length (filter (\<lambda>r. case (nodesByUid (startNodeUid r), nodesByUid (endNodeUid r)) of
                  (Some rStart, Some rEnd) \<Rightarrow>
                    list_ex (splitsRoad nodesByUid rStart rEnd) sectorDividers
                | _ \<Rightarrow> False) sectorRoads)\<rparr>)"

definition scanSectors ::
  "(bigint64 \<rightharpoonup> 'a Node_scheme) \<Rightarrow> Item list list \<Rightarrow> bigint64 list \<Rightarrow> ScanState" where
  "scanSectors nodesByUid sectors referencedNodeUids =
     foldl (\<lambda>st sectorItems. scanSector nodesByUid sectorItems st)
       \<lparr>scan_roads = [], scan_dividers = [], scan_referencedNodeUids = referencedNodeUids,
        scan_splitCount = 0\<rparr> sectors"

text \<open>A divider with its start and end nodes exchanged.\<close>

fun swapEnds :: "Item \<Rightarrow> Item" where
  "swapEnds (TerrainItem t) =
     TerrainItem (t\<lparr>startNodeUid := endNodeUid t, endNodeUid := startNodeUid t\<rparr>)"
| "swapEnds (BuildingItem b) =
     BuildingItem (b\<lparr>startNodeUid := endNodeUid b, endNodeUid := startNodeUid b\<rparr>)"
| "swapEnds (CurveItem c) =
     CurveItem (c\<lparr>startNodeUid := endNodeUid c, endNodeUid := startNodeUid c\<rparr>)"
| "swapEnds (RoadItem r) = RoadItem r"
| "swapEnds (OtherItem u) = OtherItem u"

fun swapDivider :: "Divider \<Rightarrow> Divider" where
  "swapDivider (DTerrain t) =
     DTerrain (t\<lparr>startNodeUid := endNodeUid t, endNodeUid := startNodeUid t\<rparr>)"
| "swapDivider (DBuilding b) =
     DBuilding (b\<lparr>startNodeUid := endNodeUid b, endNodeUid := startNodeUid b\<rparr>)"
| "swapDivider (DCurve c) =
     DCurve (c\<lparr>startNodeUid := endNodeUid c, endNodeUid := startNodeUid c\<rparr>)"

section \<open>The map assembly pass: mileage targets and emission\<close>

text \<open>
  A mileage target: the optional fields the pass tests. A number is truthy when it is
  defined and not 0, a \<open>bigint\<close> when it is defined and not \<open>0n\<close>.
\<close>

record MileageTarget =
  target_x :: "real option"
  target_y :: "real option"
  target_nodeUid :: "bigint64 option"

definition truthy_number :: "real option \<Rightarrow> bool" where
  "truthy_number v = (case v of None \<Rightarrow> False | Some n \<Rightarrow> n \<noteq> 0)"

definition truthy_bigint :: "bigint64 option \<Rightarrow> bool" where
  "truthy_bigint v = (case v of None \<Rightarrow> False | Some n \<Rightarrow> n \<noteq> 0)"

text \<open>\<open>Math.round\<close>: the nearest integer, a tie going up.\<close>

definition Math_round :: "real \<Rightarrow> int" where
  "Math_round v = \<lfloor>v + 1 / 2\<rfloor>"

text \<open>
  \<open>Math.round(v * 100) / 100\<close>. The multiplication and the division are those of IEEE
  doubles, which round their results to a double: they are the parameters \<open>fmul\<close> and
  \<open>fdiv\<close> (a finite double is a real number). \<open>Math.round\<close> itself is exact.
\<close>

definition round2 :: "(real \<Rightarrow> real \<Rightarrow> real) \<Rightarrow> (real \<Rightarrow> real \<Rightarrow> real) \<Rightarrow> real \<Rightarrow> real" where
  "round2 fmul fdiv v = fdiv (of_int (Math_round (fmul v 100))) 100"

definition augmentTarget ::
  "(real \<Rightarrow> real \<Rightarrow> real) \<Rightarrow> (real \<Rightarrow> real \<Rightarrow> real) \<Rightarrow> (bigint64 \<rightharpoonup> 'a Node_scheme)
     \<Rightarrow> 'b MileageTarget_scheme \<Rightarrow> 'b MileageTarget_scheme" where
  "augmentTarget fmul fdiv nodesByUid target =
     (if (truthy_number (target_x target) \<and> truthy_number (target_y target))
         \<or> \<not> truthy_bigint (target_nodeUid target)
      then target
      else (case target_nodeUid target of
          None \<Rightarrow> target
        | Some nodeUid \<Rightarrow>
            (case nodesByUid nodeUid of
               Some node \<Rightarrow>
                 target\<lparr>target_nodeUid := None,
                        target_x := Some (round2 fmul fdiv (node_x node)),
                        target_y := Some (round2 fmul fdiv (node_y node))\<rparr>
             | None \<Rightarrow> target)))"

text \<open>The loop over \<open>defData.mileageTargets\<close>, a map from token to target, in its order.\<close>

definition augmentMileageTargets ::
  "(real \<Rightarrow> real \<Rightarrow> real) \<Rightarrow> (real \<Rightarrow> real \<Rightarrow> real) \<Rightarrow> (bigint64 \<rightharpoonup> 'a Node_scheme)
     \<Rightarrow> (string \<times> 'b MileageTarget_scheme) list \<Rightarrow> (string \<times> 'b MileageTarget_scheme) list" where
  "augmentMileageTargets fmul fdiv nodesByUid targets =
     map (\<lambda>(token, target). (token, augmentTarget fmul fdiv nodesByUid target)) targets"

text \<open>
  Emission: the nodes found for the referenced UIDs and for the elevation UIDs, in the
  order of the sets, and the two fields \<open>nodes\<close> and \<open>elevation\<close> of \<open>mapData\<close>.
\<close>

definition lookupNodes :: "(bigint64 \<rightharpoonup> 'a Node_scheme) \<Rightarrow> bigint64 list \<Rightarrow> 'a Node_scheme list" where
  "lookupNodes nodesByUid uids = List.map_filter nodesByUid uids"

definition mapData_nodes ::
  "(bigint64 \<rightharpoonup> 'a Node_scheme) \<Rightarrow> bigint64 list \<Rightarrow> 'a Node_scheme list" where
  "mapData_nodes nodesByUid referencedNodeUids = lookupNodes nodesByUid referencedNodeUids"

definition mapData_elevation ::
  "(bigint64 \<rightharpoonup> 'a Node_scheme) \<Rightarrow> bigint64 list \<Rightarrow> int list list" where
  "mapData_elevation nodesByUid elevationNodeUids =
     map (\<lambda>n. map Math_round [node_x n, node_y n, node_z n])
       (lookupNodes nodesByUid elevationNodeUids)"

section \<open>Example inputs\<close>

definition tobj_example_md :: EntryV2Metadata where
  "tobj_example_md = \<lparr>hash = 0, offset = 1, compressedSize = 2, uncompressedSize = 2,
     compression = NONE, isDirectory = False\<rparr>"

definition tobj_example_image :: ImageMeta where
  "tobj_example_image = \<lparr>width = 256, height = 256,
     image = \<lparr>mipmapCount = 9, format = 28, isCube = False, count = 1,
       pitchAlignment = 1, imageAlignment = 1\<rparr>\<rparr>"

definition tobj_example_cube :: ImageMeta where
  "tobj_example_cube = \<lparr>width = 64, height = 64,
     image = \<lparr>mipmapCount = 1, format = 28, isCube = True, count = 1,
       pitchAlignment = 1, imageAlignment = 1\<rparr>\<rparr>"

definition entry_example_none :: EntryV2Metadata where
  "entry_example_none = \<lparr>hash = 0, offset = 0, compressedSize = 3, uncompressedSize = 5,
     compression = NONE, isDirectory = False\<rparr>"

definition entry_example_zlib :: EntryV2Metadata where
  "entry_example_zlib = \<lparr>hash = 0, offset = 1, compressedSize = 2, uncompressedSize = 3,
     compression = ZLIB, isDirectory = False\<rparr>"

definition entry_example_gdeflate :: EntryV2Metadata where
  "entry_example_gdeflate = \<lparr>hash = 0, offset = 0, compressedSize = 14, uncompressedSize = 3,
     compression = GDEFLATE, isDirectory = False\<rparr>"

definition example_tiled_file :: "byte list" where
  "example_tiled_file = [4, 251, 1, 0, 0, 0, 0, 0, 2, 0, 0, 0, 5, 6]"

text \<open>A stand-in decoder that accepts only the payload without the tile-stream header.\<close>

definition example_gdeflate :: "byte list \<Rightarrow> byte list \<Rightarrow> int \<times> byte list" where
  "example_gdeflate inBuffer outBuffer = (if inBuffer = [5, 6] then (0, [5, 6]) else (-1, []))"

definition example_entry_bytes :: "nat \<Rightarrow> byte list" where
  "example_entry_bytes n = [1, 0, 0, 0, 0, 0, 0, 0, 0, 0, 0, 0, of_nat n, 0, 0, 0]"

definition example_skipped_table :: "byte list" where
  "example_skipped_table = [0, 0, 0, 3, 0, 0, 0, 130, 0, 0, 0, 3]"

definition example_unknown_table :: "byte list" where
  "example_unknown_table = [0, 0, 0, 3, 0, 0, 0, 7]"

definition example_archive_header :: "nat \<Rightarrow> FileHeaderV2" where
  "example_archive_header tableSize =
     \<lparr>magic = ''SCS#'', version = 2, salt = 0, hashMethod = ''CITY'', entryTableCount = 1,
      entryTableCompressedSize = 16, metadataTableSize = tableSize,
      metadataTableCompressedSize = tableSize, entryTableOffset = 0,
      metadataTableOffset = 16, securityDescriptorOffset = 0, hashfsV2Platform = 0\<rparr>"

definition example_entry :: "nat \<Rightarrow> EntryV2Header" where
  "example_entry n = \<lparr>entry_hash = 1, metadataIndex = 0, metadataCount = n,
     flag_isDirectory = False, someByte = 0\<rparr>"

definition example_node :: "bigint64 \<Rightarrow> real \<Rightarrow> real \<Rightarrow> Node" where
  "example_node u vx vy = \<lparr>node_uid = u, node_x = vx, node_y = vy, node_z = 0\<rparr>"

definition example_nodesByUid :: "bigint64 \<rightharpoonup> Node" where
  "example_nodesByUid =
     [1 \<mapsto> example_node 1 0 0, 2 \<mapsto> example_node 2 100 0,
      3 \<mapsto> example_node 3 (1 / 2) 0, 4 \<mapsto> example_node 4 (201 / 2) 0,
      5 \<mapsto> example_node 5 5 0, 6 \<mapsto> example_node 6 95 0]"

definition example_road :: Road where
  "example_road = \<lparr>item_uid = 10, startNodeUid = 1, endNodeUid = 2, maybeDivided = None\<rparr>"

definition example_terrain_near :: Segment where
  "example_terrain_near = \<lparr>item_uid = 11, startNodeUid = 3, endNodeUid = 4\<rparr>"

definition example_terrain_far :: Segment where
  "example_terrain_far = \<lparr>item_uid = 12, startNodeUid = 5, endNodeUid = 6\<rparr>"

definition example_half_node :: Node where
  "example_half_node = \<lparr>node_uid = 7, node_x = 1 / 2, node_y = 5 / 4, node_z = - 3 / 2\<rparr>"

definition example_target :: MileageTarget where
  "example_target = \<lparr>target_x = Some 0, target_y = Some 5, target_nodeUid = Some 7\<rparr>"

definition example_target_bare :: MileageTarget where
  "example_target_bare = \<lparr>target_x = None, target_y = None, target_nodeUid = Some 7\<rparr>"

definition example_target_placed :: MileageTarget where
  "example_target_placed = \<lparr>target_x = Some 3, target_y = Some 5, target_nodeUid = Some 7\<rparr>"

text \<open>
  The double written \<open>2.675\<close> and the double nearest to 268/100, and stand-ins for the
  double multiplication and division that agree with them at the operands used below:
  the double product of 2.675 and 100 is 267.5, the double quotient of 268 and 100 is the
  double nearest to 2.68, and a product or quotient that is itself a double is exact.
\<close>

definition example_double_2675 :: real where
  "example_double_2675 = 3011782250804019 / 2 ^ 50"

definition example_double_268 :: real where
  "example_double_268 = 6034823500676465 / 2 ^ 51"

definition example_fmul :: "real \<Rightarrow> real \<Rightarrow> real" where
  "example_fmul a b = (if a = example_double_2675 \<and> b = 100 then 535 / 2 else a * b)"

definition example_fdiv :: "real \<Rightarrow> real \<Rightarrow> real" where
  "example_fdiv a b = (if a = 268 \<and> b = 100 then example_double_268 else a / b)"

definition example_node_2675 :: Node where
  "example_node_2675 = \<lparr>node_uid = 7, node_x = example_double_2675, node_y = 5 / 4, node_z = 0\<rparr>"

text \<open>A terrain whose start node lies exactly 2 away from the start node of the example road.\<close>

definition example_nodes_at_two :: "bigint64 \<rightharpoonup> Node" where
  "example_nodes_at_two =
     [1 \<mapsto> example_node 1 0 0, 2 \<mapsto> example_node 2 100 0, 8 \<mapsto> example_node 8 2 0]"

definition example_terrain_at_two :: Segment where
  "example_terrain_at_two = \<lparr>item_uid = 13, startNodeUid = 8, endNodeUid = 2\<rparr>"

section \<open>Properties of the store\<close>

lemma Map_of_entries_snoc:
  "Map_of_entries (kvs @ [(k, v)]) = (Map_of_entries kvs)(k \<mapsto> v)"
  by (simp add: Map_of_entries_def)

lemma Map_of_entries_find:
  "Map_of_entries (map (\<lambda>v. (hashOf v, v)) values) h = List.find (\<lambda>v. hashOf v = h) (rev values)"
proof (induction "values" rule: rev_induct)
  case Nil
  show ?case by (simp add: Map_of_entries_def)
next
  case (snoc v vs)
  then show ?case by (simp add: Map_of_entries_snoc)
qed

lemma decimal_value_snoc: "decimal_value (s @ [c]) = 10 * decimal_value s + (of_char c - 48)"
  by (simp add: decimal_value_def)

lemma of_char_digit_char: "d < 10 \<Longrightarrow> of_char (digit_char d) = 48 + d"
  by (simp add: digit_char_def)

lemma decimal_value_digits_of_nat: "decimal_value (digits_of_nat n) = n"
proof (induction n rule: digits_of_nat.induct)
  case (1 n)
  show ?case
  proof (cases "n < 10")
    case True
    then show ?thesis
      by (subst digits_of_nat.simps) (simp add: decimal_value_def of_char_digit_char)
  next
    case False
    with 1 have "decimal_value (digits_of_nat (n div 10)) = n div 10" by simp
    with False show ?thesis
      by (subst digits_of_nat.simps) (simp add: decimal_value_snoc of_char_digit_char)
  qed
qed

lemma Number_toString_nonneg: "0 \<le> i \<Longrightarrow> decimal_value (Number_toString i) = nat i"
  by (simp add: Number_toString_def decimal_value_digits_of_nat)

lemma Number_toString_neg:
  "i < 0 \<Longrightarrow> Number_toString i = CHR ''-'' # digits_of_nat (nat (- i))"
  by (simp add: Number_toString_def)

text \<open>
  C1. The store built by the V2 reader looks a path \<open>p\<close> up under \<open>city64 p\<close> when the
  salt is 0, and under \<open>city64\<close> of the salt's decimal numeral followed by \<open>p\<close>
  otherwise. The numeral is text: for a positive salt its digits denote the salt, a
  negative salt (the field is a signed 16-bit integer) has a minus sign before the digits
  of its absolute value. With salt 7 the key hashed for \<open>material/ui/map\<close> is
  \<open>7material/ui/map\<close>.
\<close>

theorem createStore_salted_key:
  "createStore city64 hashOf values 0 p
     = Map_of_entries (map (\<lambda>v. (hashOf v, v)) values) (city64 p)
   \<and> (s \<noteq> 0 \<longrightarrow> createStore city64 hashOf values s p
          = Map_of_entries (map (\<lambda>v. (hashOf v, v)) values) (city64 (Number_toString s @ p)))
   \<and> (0 < s \<longrightarrow> decimal_value (Number_toString s) = nat s)
   \<and> (s < 0 \<longrightarrow> (\<exists>ds. Number_toString s = CHR ''-'' # ds \<and> decimal_value ds = nat (- s)))
   \<and> store_key 7 ''material/ui/map'' = ''7material/ui/map''"
proof -
  have "store_key 7 ''material/ui/map'' = ''7material/ui/map''"
    by code_simp
  moreover have "s < 0 \<longrightarrow> (\<exists>ds. Number_toString s = CHR ''-'' # ds \<and> decimal_value ds = nat (- s))"
    by (simp add: Number_toString_neg decimal_value_digits_of_nat)
  ultimately show ?thesis
    by (simp add: createStore_def store_key_def Number_toString_nonneg)
qed

theorem createStore_salted_key_witness:
  "(7::int) \<noteq> 0 \<and> 0 < (7::int)
   \<and> createStore (\<lambda>s. of_nat (length s)) fst [(16 :: bigint64, ''dir'')] 7 ''material/ui/map''
       = Some (16, ''dir'')
   \<and> decimal_value (Number_toString 7) = 7"
  using createStore_salted_key
    [of "\<lambda>s. of_nat (length s)" fst "[(16 :: bigint64, ''dir'')]" "''material/ui/map''" 7]
  by (simp add: Map_of_entries_def Number_toString_nonneg) code_simp

text \<open>
  C10. The store builder never fails; when several entries of the list carry the same
  hash, a lookup whose key hashes to that value returns the one that comes last in the
  list: the result of \<open>get\<close> is the first match in the reversed list.
\<close>

theorem createStore_last_writer_wins:
  "createStore city64 hashOf values s key
     = List.find (\<lambda>v. hashOf v = city64 (store_key s key)) (rev values)"
  by (simp add: createStore_def Map_of_entries_find)

theorem createStore_last_writer_wins_witness:
  "createStore (\<lambda>s. 5) fst [(5 :: bigint64, ''first''), (9, ''other''), (5, ''last'')] 0 ''a/b''
     = Some (5, ''last'')"
  using createStore_last_writer_wins
    [of "\<lambda>s. 5" fst "[(5 :: bigint64, ''first''), (9, ''other''), (5, ''last'')]" 0 "''a/b''"]
  by simp

text \<open>
  C3. For the entry table and for the metadata table, the bytes read from disk go through
  \<open>inflateSync\<close> exactly when the compressed size differs from the expected uncompressed
  size (16 bytes per entry for the entry table, the header's metadata table size for the
  metadata table); when the sizes are equal the bytes read are the result, unchanged.
\<close>

theorem readData_inflates_iff_sizes_differ:
  "(entryTableCompressedSize h \<noteq> 16 * entryTableCount h \<longrightarrow>
      readEntryTable inflateSync file h
        = inflateSync (snd (readSync file (entryTableCompressedSize h) (entryTableOffset h))))
   \<and> (entryTableCompressedSize h = 16 * entryTableCount h \<longrightarrow>
      readEntryTable inflateSync file h
        = Inr (snd (readSync file (entryTableCompressedSize h) (entryTableOffset h))))
   \<and> (metadataTableCompressedSize h \<noteq> metadataTableSize h \<longrightarrow>
      readMetadataTable inflateSync file h
        = inflateSync (snd (readSync file (metadataTableCompressedSize h) (metadataTableOffset h))))
   \<and> (metadataTableCompressedSize h = metadataTableSize h \<longrightarrow>
      readMetadataTable inflateSync file h
        = Inr (snd (readSync file (metadataTableCompressedSize h) (metadataTableOffset h))))
   \<and> (c \<noteq> u \<longrightarrow> readData inflateSync file off c u = inflateSync (snd (readSync file c off)))
   \<and> (c = u \<longrightarrow> readData inflateSync file off c u = Inr (snd (readSync file c off)))"
  by (simp add: readEntryTable_def readMetadataTable_def readData_def EntryV2Header_size_def)

theorem readData_inflates_iff_sizes_differ_witness:
  "readData (\<lambda>b. Inl ZlibError) (replicate 16 7 @ [1, 2]) 15 2 2 = Inr [7, 1]
   \<and> readData (\<lambda>b. Inr (rev b)) [1, 2, 3] 1 2 5 = Inr [3, 2]
   \<and> readEntryTable (\<lambda>b. Inl ZlibError) (replicate 16 7 @ [1, 2])
        \<lparr>magic = ''SCS#'', version = 2, salt = 0, hashMethod = ''CITY'', entryTableCount = 1,
         entryTableCompressedSize = 16, metadataTableSize = 2, metadataTableCompressedSize = 2,
         entryTableOffset = 0, metadataTableOffset = 16, securityDescriptorOffset = 0,
         hashfsV2Platform = 0\<rparr> = Inr (replicate 16 7)
   \<and> readMetadataTable (\<lambda>b. Inl ZlibError) (replicate 16 7 @ [1, 2])
        \<lparr>magic = ''SCS#'', version = 2, salt = 0, hashMethod = ''CITY'', entryTableCount = 1,
         entryTableCompressedSize = 16, metadataTableSize = 2, metadataTableCompressedSize = 2,
         entryTableOffset = 0, metadataTableOffset = 16, securityDescriptorOffset = 0,
         hashfsV2Platform = 0\<rparr> = Inr [1, 2]
   \<and> readEntryTable (\<lambda>b. Inr (rev b)) [1, 2, 3]
        \<lparr>magic = ''SCS#'', version = 2, salt = 0, hashMethod = ''CITY'', entryTableCount = 1,
         entryTableCompressedSize = 2, metadataTableSize = 9, metadataTableCompressedSize = 1,
         entryTableOffset = 0, metadataTableOffset = 2, securityDescriptorOffset = 0,
         hashfsV2Platform = 0\<rparr> = Inr [2, 1]
   \<and> readMetadataTable (\<lambda>b. Inr (rev b)) [1, 2, 3]
        \<lparr>magic = ''SCS#'', version = 2, salt = 0, hashMethod = ''CITY'', entryTableCount = 1,
         entryTableCompressedSize = 2, metadataTableSize = 9, metadataTableCompressedSize = 1,
         entryTableOffset = 0, metadataTableOffset = 2, securityDescriptorOffset = 0,
         hashfsV2Platform = 0\<rparr> = Inr [3]"
  using readData_inflates_iff_sizes_differ
    [of "\<lparr>magic = ''SCS#'', version = 2, salt = 0, hashMethod = ''CITY'', entryTableCount = 1,
         entryTableCompressedSize = 16, metadataTableSize = 2, metadataTableCompressedSize = 2,
         entryTableOffset = 0, metadataTableOffset = 16, securityDescriptorOffset = 0,
         hashfsV2Platform = 0\<rparr>" "\<lambda>b. Inl ZlibError" "replicate 16 7 @ [1, 2]" 2 2 15]
    readData_inflates_iff_sizes_differ
    [of "\<lparr>magic = ''SCS#'', version = 2, salt = 0, hashMethod = ''CITY'', entryTableCount = 1,
         entryTableCompressedSize = 2, metadataTableSize = 9, metadataTableCompressedSize = 1,
         entryTableOffset = 0, metadataTableOffset = 2, securityDescriptorOffset = 0,
         hashfsV2Platform = 0\<rparr>" "\<lambda>b. Inr (rev b)" "[1, 2, 3]" 2 5 1]
  by (simp add: readSync_def)

section \<open>Properties of buffers and of reading an entry\<close>

lemma length_u32le [simp]: "length (u32le n) = 4"
  by (simp add: u32le_def)

lemma length_string_bytes [simp]: "length (string_bytes s) = length s"
  by (simp add: string_bytes_def)

lemma length_DdsHeader_toBuffer [simp]: "length (DdsHeader_toBuffer h) = 124"
  by (simp add: DdsHeader_toBuffer_def DdsPixelFormat_toBuffer_def)

lemma length_DdsHeaderDX10_toBuffer [simp]: "length (DdsHeaderDX10_toBuffer d) = 20"
  by (simp add: DdsHeaderDX10_toBuffer_def)

lemma Buffer_copy_fits:
  "targetStart + length source \<le> length target \<Longrightarrow> source \<noteq> [] \<Longrightarrow>
   Buffer_copy source target targetStart
     = take targetStart target @ source @ drop (targetStart + length source) target"
  by (cases source) (auto simp: Buffer_copy_def)

lemma Buffer_copy_empty: "Buffer_copy [] target targetStart = target"
  by (simp add: Buffer_copy_def)

lemma Buffer_copy_fits':
  "targetStart + length source \<le> length target \<Longrightarrow>
   Buffer_copy source target targetStart
     = take targetStart target @ source @ drop (targetStart + length source) target"
  by (cases "source = []") (simp_all add: Buffer_copy_empty Buffer_copy_fits)

lemma string_bytes_DDS: "string_bytes ''DDS '' = [68, 68, 83, 32]"
  by (simp add: string_bytes_def)

lemma string_bytes_DX10: "string_bytes ''DX10'' = [68, 88, 49, 48]"
  by (simp add: string_bytes_def)

lemma le_value_u32le: "le_value (u32le n) = n mod 2 ^ 32"
proof -
  have a: "n mod 4294967296 = 256 * (n div 256 mod 16777216) + n mod 256"
    using mod_mult2_eq [of n 256 16777216] by simp
  have b: "n div 256 mod 16777216 = 256 * (n div 65536 mod 65536) + n div 256 mod 256"
    using mod_mult2_eq [of "n div 256" 256 65536] by (simp add: div_mult2_eq [symmetric])
  have c: "n div 65536 mod 65536 = 256 * (n div 16777216 mod 256) + n div 65536 mod 256"
    using mod_mult2_eq [of "n div 65536" 256 256] by (simp add: div_mult2_eq [symmetric])
  have "n mod 256 + 256 * (n div 256 mod 256 + 256 * (n div 65536 mod 256 + 256 * (n div 16777216 mod 256)))
        = n mod 4294967296"
    by (simp add: a b c)
  then show ?thesis
    by (simp add: le_value_def u32le_def unat_of_nat)
qed

lemma Tobj_assemble:
  assumes "length header = 124" "length headerDX10 = 20"
  shows "Buffer_copy ddsBytes
           (Buffer_copy headerDX10
              (Buffer_copy header
                 (Buffer_write (replicate (4 + DdsHeader_size + DdsHeaderDX10_size + length ddsBytes) 0) ''DDS '') 4) 128)
           (4 + DdsHeader_size + DdsHeaderDX10_size)
         = string_bytes ''DDS '' @ header @ headerDX10 @ ddsBytes"
  using assms
  by (simp add: Buffer_write_def Buffer_copy_fits' DdsHeader_size_def DdsHeaderDX10_size_def)

lemma readSync_full:
  "offset md + compressedSize md \<le> length file \<Longrightarrow>
   readSync file (compressedSize md) (offset md)
     = (compressedSize md, take (compressedSize md) (drop (offset md) file))"
  by (auto simp: readSync_def Let_def min_def)

lemma length_snd_readSync [simp]: "length (snd (readSync file len pos)) = len"
  by (simp add: readSync_def Let_def)

lemma length_overwrite [simp]: "length (overwrite buf stored) = length buf"
  by (simp add: overwrite_def min_def)

lemma EntryV2_read_short:
  "fst (readSync file (compressedSize md) (offset md)) \<noteq> compressedSize md \<Longrightarrow>
   EntryV2_read inflateSync gdeflate file md = Inl AssertionError"
  using length_snd_readSync [of "file" "compressedSize md" "offset md"]
  by (cases "readSync file (compressedSize md) (offset md)") (simp add: EntryV2_read_def)

lemma EntryV2_read_cases:
  assumes "EntryV2_read inflateSync gdeflate file md = Inr out"
  shows "fst (readSync file (compressedSize md) (offset md)) = compressedSize md
    \<and> (case compression md of
          NONE \<Rightarrow> out = snd (readSync file (compressedSize md) (offset md))
        | ZLIB \<Rightarrow> inflateSync (snd (readSync file (compressedSize md) (offset md))) = Inr out
        | GDEFLATE \<Rightarrow>
            fst (gdeflate (drop 12 (snd (readSync file (compressedSize md) (offset md))))
                   (replicate (uncompressedSize md) 0)) = 0
            \<and> out = overwrite (replicate (uncompressedSize md) 0)
                 (snd (gdeflate (drop 12 (snd (readSync file (compressedSize md) (offset md))))
                   (replicate (uncompressedSize md) 0)))
        | _ \<Rightarrow> False)"
proof (cases "fst (readSync file (compressedSize md) (offset md)) = compressedSize md")
  case False
  with assms show ?thesis by (simp add: EntryV2_read_short)
next
  case True
  obtain n raw where r: "readSync file (compressedSize md) (offset md) = (n, raw)"
    by (cases "readSync file (compressedSize md) (offset md)")
  from True r have n: "n = compressedSize md" by simp
  from r have "length raw = compressedSize md"
    using length_snd_readSync [of "file" "compressedSize md" "offset md"] by simp
  with n have eq: "n = length raw" by simp
  show ?thesis
  proof (cases "compression md")
    case NONE
    with assms r eq True show ?thesis by (simp add: EntryV2_read_def)
  next
    case ZLIB
    with assms r eq True show ?thesis by (simp add: EntryV2_read_def)
  next
    case GDEFLATE
    with assms r eq True show ?thesis
      by (simp add: EntryV2_read_def TileStreamHeader_size_def Let_def
            split: prod.splits if_splits)
  next
    case ZLIB_HEADERLESS
    with assms r eq show ?thesis by (simp add: EntryV2_read_def)
  next
    case ZSTD
    with assms r eq show ?thesis by (simp add: EntryV2_read_def)
  qed
qed

lemma readSync_ok_raw:
  assumes "fst (readSync file len pos) = len"
  shows "snd (readSync file len pos) = take len (drop pos file)"
proof -
  from assms have "length (take len (drop pos file)) = len"
    by (simp add: readSync_def Let_def)
  then show ?thesis by (simp add: readSync_def Let_def)
qed

lemma Tobj_read_concat:
  assumes "EntryV2_read inflateSync gdeflate file md = Inr payload"
  shows "Tobj_read inflateSync gdeflate file md imageMetadata
     = Inr (string_bytes ''DDS '' @ DdsHeader_toBuffer (Tobj_header imageMetadata payload)
            @ DdsHeaderDX10_toBuffer (Tobj_headerDX10 imageMetadata) @ payload)"
  using assms by (simp add: Tobj_read_def Let_def Tobj_assemble)

lemma Tobj_header_pitch_bytes:
  "take 4 (drop 16 (DdsHeader_toBuffer (Tobj_header imageMetadata payload))) = u32le (length payload)"
  by (simp add: DdsHeader_toBuffer_def Tobj_header_def)

lemma Tobj_header_fourCc_bytes:
  "take 4 (drop 80 (DdsHeader_toBuffer (Tobj_header imageMetadata payload))) = string_bytes ''DX10''"
  by (simp add: DdsHeader_toBuffer_def DdsPixelFormat_toBuffer_def Tobj_header_def)

lemma Tobj_headerDX10_misc_bytes:
  "take 4 (drop 8 (DdsHeaderDX10_toBuffer (Tobj_headerDX10 imageMetadata)))
     = u32le (if isCube (image imageMetadata) then D3d10ResourceMiscFlag_TextureCube else 0)"
  by (simp add: DdsHeaderDX10_toBuffer_def Tobj_headerDX10_def)

text \<open>
  C2. When the base read of a texture-object entry gives a payload of length \<open>L\<close>, \<open>read()\<close>
  succeeds with a buffer of length \<open>4 + 124 + 20 + L = 148 + L\<close> that starts with the
  bytes of \<open>DDS \<close>, holds the legacy header in bytes 4..127 and the DX10 extension in
  bytes 128..147, then the payload. The header's \<open>pitchOrLinearSize\<close> is \<open>L\<close> (its four
  bytes at offset 20 hold \<open>L\<close> modulo \<open>2^32\<close>), the fourCC at offset 84 is \<open>DX10\<close>, and
  the misc flag of the extension (offset 136) is TextureCube exactly when the image
  descriptor's \<open>isCube\<close> is set, and 0 otherwise.
\<close>

theorem Tobj_read_layout:
  assumes "EntryV2_read inflateSync gdeflate file md = Inr payload"
  shows "case Tobj_read inflateSync gdeflate file md imageMetadata of
     Inl e \<Rightarrow> False
   | Inr out \<Rightarrow>
     length out = 4 + 124 + 20 + length payload
     \<and> length out = 148 + length payload
     \<and> take 4 out = string_bytes ''DDS ''
     \<and> take 124 (drop 4 out) = DdsHeader_toBuffer (Tobj_header imageMetadata payload)
     \<and> pitchOrLinearSize (Tobj_header imageMetadata payload) = length payload
     \<and> le_value (take 4 (drop 20 out)) = length payload mod 2 ^ 32
     \<and> fourCc (ddsPixelFormat (Tobj_header imageMetadata payload)) = ''DX10''
     \<and> take 4 (drop 84 out) = string_bytes ''DX10''
     \<and> take 20 (drop 128 out) = DdsHeaderDX10_toBuffer (Tobj_headerDX10 imageMetadata)
     \<and> (miscFlag (Tobj_headerDX10 imageMetadata) = D3d10ResourceMiscFlag_TextureCube
           \<longleftrightarrow> isCube (image imageMetadata))
     \<and> (le_value (take 4 (drop 136 out)) = D3d10ResourceMiscFlag_TextureCube
           \<longleftrightarrow> isCube (image imageMetadata))
     \<and> (le_value (take 4 (drop 136 out)) = 0 \<longleftrightarrow> \<not> isCube (image imageMetadata))
     \<and> drop 148 out = payload"
proof -
  define hd1 where "hd1 = DdsHeader_toBuffer (Tobj_header imageMetadata payload)"
  define hd2 where "hd2 = DdsHeaderDX10_toBuffer (Tobj_headerDX10 imageMetadata)"
  define out where "out = string_bytes ''DDS '' @ hd1 @ hd2 @ payload"
  have l1: "length hd1 = 124" and l2: "length hd2 = 20"
    by (simp_all add: hd1_def hd2_def)
  have r: "Tobj_read inflateSync gdeflate file md imageMetadata = Inr out"
    using assms by (simp add: Tobj_read_concat out_def hd1_def hd2_def)
  have len: "length out = 148 + length payload"
    by (simp add: out_def l1 l2)
  have magic: "take 4 out = string_bytes ''DDS ''"
    by (simp add: out_def)
  have h1: "take 124 (drop 4 out) = hd1"
    by (simp add: out_def l1)
  have h2: "take 20 (drop 128 out) = hd2"
    by (simp add: out_def l1 l2)
  have pay: "drop 148 out = payload"
    by (simp add: out_def l1 l2)
  have "take 4 (drop 20 out) = take 4 (drop 16 hd1)"
    by (simp add: out_def l1)
  then have pitch: "le_value (take 4 (drop 20 out)) = length payload mod 2 ^ 32"
    by (simp add: hd1_def Tobj_header_pitch_bytes le_value_u32le)
  have "take 4 (drop 84 out) = take 4 (drop 80 hd1)"
    by (simp add: out_def l1)
  then have four: "take 4 (drop 84 out) = string_bytes ''DX10''"
    by (simp add: hd1_def Tobj_header_fourCc_bytes)
  have "take 4 (drop 136 out) = take 4 (drop 8 hd2)"
    by (simp add: out_def l1 l2)
  then have misc: "le_value (take 4 (drop 136 out))
      = (if isCube (image imageMetadata) then D3d10ResourceMiscFlag_TextureCube else 0)"
    by (simp add: hd2_def Tobj_headerDX10_misc_bytes le_value_u32le
          D3d10ResourceMiscFlag_TextureCube_def)
  have rec1: "pitchOrLinearSize (Tobj_header imageMetadata payload) = length payload"
    and rec2: "fourCc (ddsPixelFormat (Tobj_header imageMetadata payload)) = ''DX10''"
    by (simp_all add: Tobj_header_def)
  have rec3: "miscFlag (Tobj_headerDX10 imageMetadata) = D3d10ResourceMiscFlag_TextureCube
           \<longleftrightarrow> isCube (image imageMetadata)"
    by (simp add: Tobj_headerDX10_def D3d10ResourceMiscFlag_TextureCube_def)
  from r len magic h1 h2 pay pitch four misc rec1 rec2 rec3 show ?thesis
    by (simp add: hd1_def hd2_def D3d10ResourceMiscFlag_TextureCube_def)
qed

lemma ex_read: "EntryV2_read (\<lambda>b. Inl ZlibError) (\<lambda>i out. (1, [])) [9, 8, 7] tobj_example_md = Inr [8, 7]"
  by (simp add: EntryV2_read_def readSync_def tobj_example_md_def)

theorem Tobj_read_layout_witness:
  "EntryV2_read (\<lambda>b. Inl ZlibError) (\<lambda>i out. (1, [])) [9, 8, 7] tobj_example_md = Inr [8, 7]
   \<and> (case Tobj_read (\<lambda>b. Inl ZlibError) (\<lambda>i out. (1, [])) [9, 8, 7] tobj_example_md
               tobj_example_image of
        Inl e \<Rightarrow> False
      | Inr out \<Rightarrow>
          length out = 150 \<and> take 4 out = [68, 68, 83, 32]
        \<and> take 4 (drop 84 out) = [68, 88, 49, 48]
        \<and> le_value (take 4 (drop 20 out)) = 2
        \<and> le_value (take 4 (drop 136 out)) = 0
        \<and> drop 148 out = [8, 7])
   \<and> (case Tobj_read (\<lambda>b. Inl ZlibError) (\<lambda>i out. (1, [])) [9, 8, 7] tobj_example_md
               tobj_example_cube of
        Inl e \<Rightarrow> False
      | Inr out \<Rightarrow> length out = 150 \<and> le_value (take 4 (drop 136 out)) = 4)"
  using Tobj_read_layout [OF ex_read, of tobj_example_image]
    Tobj_read_layout [OF ex_read, of tobj_example_cube]
  by (simp add: string_bytes_DDS string_bytes_DX10 tobj_example_image_def tobj_example_cube_def
        ex_read D3d10ResourceMiscFlag_TextureCube_def split: sum.splits)

lemma Compression_cases_of_read:
  assumes "EntryV2_read inflateSync gdeflate file md = Inr out"
  shows "compression md = NONE \<or> compression md = ZLIB \<or> compression md = GDEFLATE"
  using EntryV2_read_cases [OF assms] by (cases "compression md") simp_all

text \<open>
  C4, as amended. A successful base \<open>read()\<close> has the tag none, zlib or
  tiled-parallel-deflate. With tag none it returns the raw bytes, whose length is the
  declared compressed size (so it equals the declared uncompressed size exactly when the
  two declared sizes agree); with tiled-parallel-deflate it returns a buffer of exactly
  the declared uncompressed size; with zlib it returns what \<open>inflateSync\<close> returns, of
  whatever length. A texture-object entry with the same metadata returns 148 bytes more.
\<close>

theorem EntryV2_read_length_by_tag:
  assumes "EntryV2_read inflateSync gdeflate file md = Inr out"
  shows "(compression md = NONE \<longrightarrow>
            out = take (compressedSize md) (drop (offset md) file)
            \<and> length out = compressedSize md
            \<and> (length out = uncompressedSize md \<longleftrightarrow> compressedSize md = uncompressedSize md))
       \<and> (compression md = GDEFLATE \<longrightarrow> length out = uncompressedSize md)
       \<and> (compression md = ZLIB \<longrightarrow>
            inflateSync (take (compressedSize md) (drop (offset md) file)) = Inr out)
       \<and> (compression md = NONE \<or> compression md = ZLIB \<or> compression md = GDEFLATE)
       \<and> (case Tobj_read inflateSync gdeflate file md imageMetadata of
            Inl e \<Rightarrow> False | Inr ddsFile \<Rightarrow> length ddsFile = 148 + length out)"
proof -
  note c = EntryV2_read_cases [OF assms]
  then have full: "fst (readSync file (compressedSize md) (offset md)) = compressedSize md"
    by simp
  have raw: "snd (readSync file (compressedSize md) (offset md))
      = take (compressedSize md) (drop (offset md) file)"
    by (rule readSync_ok_raw [OF full])
  have len: "length (take (compressedSize md) (drop (offset md) file)) = compressedSize md"
    using raw length_snd_readSync [of "file" "compressedSize md" "offset md"] by simp
  have n: "compression md = NONE \<longrightarrow>
            out = take (compressedSize md) (drop (offset md) file)
            \<and> length out = compressedSize md
            \<and> (length out = uncompressedSize md \<longleftrightarrow> compressedSize md = uncompressedSize md)"
    using c raw len by auto
  have g: "compression md = GDEFLATE \<longrightarrow> length out = uncompressedSize md"
    using c by auto
  have z: "compression md = ZLIB \<longrightarrow>
            inflateSync (take (compressedSize md) (drop (offset md) file)) = Inr out"
    using c raw by auto
  have t: "case Tobj_read inflateSync gdeflate file md imageMetadata of
            Inl e \<Rightarrow> False | Inr ddsFile \<Rightarrow> length ddsFile = 148 + length out"
    by (simp add: Tobj_read_concat [OF assms])
  from n g z t Compression_cases_of_read [OF assms] show ?thesis by blast
qed

text \<open>
  C5. For an entry with tag tiled-parallel-deflate, \<open>read()\<close> fails its assertion on a
  short read; otherwise it gives the decoder the raw payload without its first 12 bytes
  (the size of the tile-stream header) and an output buffer of the declared uncompressed
  size, and it throws whenever the decoder's result is not 0; with result 0 it returns
  the output buffer.
\<close>

theorem gdeflate_strips_tile_header:
  assumes "compression md = GDEFLATE"
  shows "TileStreamHeader_size = 12
     \<and> (fst (readSync file (compressedSize md) (offset md)) \<noteq> compressedSize md \<longrightarrow>
          EntryV2_read inflateSync gdeflate file md = Inl AssertionError)
     \<and> (fst (readSync file (compressedSize md) (offset md)) = compressedSize md \<longrightarrow>
          EntryV2_read inflateSync gdeflate file md =
            (let rawData = take (compressedSize md) (drop (offset md) file);
                 outputBuffer = replicate (uncompressedSize md) 0;
                 (result, stored) = gdeflate (drop 12 rawData) outputBuffer
             in if result \<noteq> 0 then Inl (GdeflateError result)
                else Inr (overwrite outputBuffer stored)))
     \<and> (fst (readSync file (compressedSize md) (offset md)) = compressedSize md
          \<and> fst (gdeflate (drop 12 (take (compressedSize md) (drop (offset md) file)))
                 (replicate (uncompressedSize md) 0)) \<noteq> 0 \<longrightarrow>
          isl (EntryV2_read inflateSync gdeflate file md))"
proof -
  have short: "fst (readSync file (compressedSize md) (offset md)) \<noteq> compressedSize md \<longrightarrow>
          EntryV2_read inflateSync gdeflate file md = Inl AssertionError"
    by (simp add: EntryV2_read_short)
  have ok: "EntryV2_read inflateSync gdeflate file md =
            (let rawData = take (compressedSize md) (drop (offset md) file);
                 outputBuffer = replicate (uncompressedSize md) 0;
                 (result, stored) = gdeflate (drop 12 rawData) outputBuffer
             in if result \<noteq> 0 then Inl (GdeflateError result)
                else Inr (overwrite outputBuffer stored))"
    if full: "fst (readSync file (compressedSize md) (offset md)) = compressedSize md"
  proof -
    have raw: "readSync file (compressedSize md) (offset md)
        = (compressedSize md, take (compressedSize md) (drop (offset md) file))"
      using full readSync_ok_raw [OF full] by (simp add: prod_eq_iff)
    have len: "length (take (compressedSize md) (drop (offset md) file)) = compressedSize md"
      using raw length_snd_readSync [of "file" "compressedSize md" "offset md"] by simp
    show ?thesis
      using assms len
      by (simp add: EntryV2_read_def raw TileStreamHeader_size_def Let_def)
  qed
  have bad: "isl (EntryV2_read inflateSync gdeflate file md)"
    if full: "fst (readSync file (compressedSize md) (offset md)) = compressedSize md"
    and nz: "fst (gdeflate (drop 12 (take (compressedSize md) (drop (offset md) file)))
                 (replicate (uncompressedSize md) 0)) \<noteq> 0"
    using nz by (auto simp: ok [OF full] Let_def split: prod.splits)
  from short ok bad show ?thesis
    by (simp add: TileStreamHeader_size_def)
qed

lemma ex_none: "EntryV2_read (\<lambda>b. Inl ZlibError) (\<lambda>i out. (1, [])) [1, 2, 3] entry_example_none = Inr [1, 2, 3]"
  by (simp add: EntryV2_read_def readSync_def entry_example_none_def)

lemma ex_zlib: "EntryV2_read (\<lambda>b. Inr (b @ b)) (\<lambda>i out. (1, [])) [1, 2, 3] entry_example_zlib = Inr [2, 3, 2, 3]"
  by (simp add: EntryV2_read_def readSync_def entry_example_zlib_def)

lemma ex_gdeflate:
  "EntryV2_read (\<lambda>b. Inl ZlibError) example_gdeflate example_tiled_file entry_example_gdeflate
     = Inr [5, 6, 0]"
  by (simp add: EntryV2_read_def readSync_def entry_example_gdeflate_def example_tiled_file_def
        example_gdeflate_def TileStreamHeader_size_def overwrite_def Let_def)

lemma example_fields:
  "compression entry_example_none = NONE" "compressedSize entry_example_none = 3"
  "uncompressedSize entry_example_none = 5"
  "compression entry_example_zlib = ZLIB" "uncompressedSize entry_example_zlib = 3"
  "compression entry_example_gdeflate = GDEFLATE" "uncompressedSize entry_example_gdeflate = 3"
  "compressedSize entry_example_gdeflate = 14" "offset entry_example_gdeflate = 0"
  "uncompressedSize tobj_example_md = 2"
  by (simp_all add: entry_example_none_def entry_example_zlib_def entry_example_gdeflate_def
        tobj_example_md_def)

theorem EntryV2_read_length_by_tag_witness:
  "EntryV2_read (\<lambda>b. Inl ZlibError) (\<lambda>i out. (1, [])) [1, 2, 3] entry_example_none = Inr [1, 2, 3]
   \<and> compression entry_example_none = NONE
   \<and> length [1 :: byte, 2, 3] = compressedSize entry_example_none
   \<and> EntryV2_read (\<lambda>b. Inr (b @ b)) (\<lambda>i out. (1, [])) [1, 2, 3] entry_example_zlib = Inr [2, 3, 2, 3]
   \<and> compression entry_example_zlib = ZLIB
   \<and> EntryV2_read (\<lambda>b. Inl ZlibError) example_gdeflate example_tiled_file entry_example_gdeflate
        = Inr [5, 6, 0]
   \<and> compression entry_example_gdeflate = GDEFLATE
   \<and> length [5 :: byte, 6, 0] = uncompressedSize entry_example_gdeflate"
  using EntryV2_read_length_by_tag [OF ex_none, of tobj_example_image]
    EntryV2_read_length_by_tag [OF ex_zlib, of tobj_example_image]
    EntryV2_read_length_by_tag [OF ex_gdeflate, of tobj_example_image]
  by (simp add: ex_none ex_zlib ex_gdeflate example_fields)

text \<open>
  C4 as stated fails: an entry with tag none and declared sizes 3 (compressed) and 5
  (uncompressed) reads 3 bytes, and a texture-object file entry whose declared sizes are
  both 2 reads 150 bytes.
\<close>

theorem EntryV2_read_length_counterexample:
  "EntryV2_read (\<lambda>b. Inl ZlibError) (\<lambda>i out. (1, [])) [1, 2, 3] entry_example_none = Inr [1, 2, 3]
   \<and> length [1 :: byte, 2, 3] \<noteq> uncompressedSize entry_example_none
   \<and> (case Tobj_read (\<lambda>b. Inl ZlibError) (\<lambda>i out. (1, [])) [9, 8, 7] tobj_example_md
               tobj_example_image of
        Inl e \<Rightarrow> False
      | Inr out \<Rightarrow> length out = 150 \<and> length out \<noteq> uncompressedSize tobj_example_md)"
  by (simp add: ex_none example_fields Tobj_read_concat [OF ex_read])

lemma ex_gdeflate_fail:
  "EntryV2_read (\<lambda>b. Inl ZlibError) (\<lambda>i out. (7, [1, 1, 1])) example_tiled_file
        entry_example_gdeflate = Inl (GdeflateError 7)"
  by (simp add: EntryV2_read_def readSync_def entry_example_gdeflate_def example_tiled_file_def
        TileStreamHeader_size_def Let_def)

lemma ex_gdeflate_short:
  "EntryV2_read (\<lambda>b. Inl ZlibError) example_gdeflate (take 13 example_tiled_file)
        entry_example_gdeflate = Inl AssertionError"
  by (simp add: EntryV2_read_def readSync_def entry_example_gdeflate_def example_tiled_file_def)

lemma ex_gdeflate_full:
  "fst (readSync example_tiled_file (compressedSize entry_example_gdeflate)
            (offset entry_example_gdeflate)) = compressedSize entry_example_gdeflate"
  "drop 12 example_tiled_file = [5, 6]"
  by (simp_all add: readSync_def example_fields example_tiled_file_def)

theorem gdeflate_strips_tile_header_witness:
  "compression entry_example_gdeflate = GDEFLATE
   \<and> fst (readSync example_tiled_file (compressedSize entry_example_gdeflate)
            (offset entry_example_gdeflate)) = compressedSize entry_example_gdeflate
   \<and> drop 12 example_tiled_file = [5, 6]
   \<and> EntryV2_read (\<lambda>b. Inl ZlibError) example_gdeflate example_tiled_file entry_example_gdeflate
        = Inr [5, 6, 0]
   \<and> EntryV2_read (\<lambda>b. Inl ZlibError) (\<lambda>i out. (7, [1, 1, 1])) example_tiled_file
        entry_example_gdeflate = Inl (GdeflateError 7)
   \<and> isl (EntryV2_read (\<lambda>b. Inl ZlibError) (\<lambda>i out. (7, [1, 1, 1])) example_tiled_file
        entry_example_gdeflate)
   \<and> EntryV2_read (\<lambda>b. Inl ZlibError) example_gdeflate (take 13 example_tiled_file)
        entry_example_gdeflate = Inl AssertionError"
  using gdeflate_strips_tile_header [OF example_fields(6), of example_tiled_file
      "\<lambda>b. Inl ZlibError" "\<lambda>i out. (7, [1, 1, 1])", THEN conjunct2]
  by (simp add: example_fields ex_gdeflate ex_gdeflate_fail ex_gdeflate_short ex_gdeflate_full)

section \<open>Properties of the metadata map\<close>

lemma forEach_append:
  "forEach body (xs @ ys) st =
     (case forEach body xs st of Inl e \<Rightarrow> Inl e | Inr st' \<Rightarrow> forEach body ys st')"
  by (induction xs arbitrary: st) (auto split: sum.splits)

lemma forEach_map:
  "forEach body (map f xs) = forEach (\<lambda>x. body (f x)) xs"
proof
  fix st show "forEach body (map f xs) st = forEach (\<lambda>x. body (f x)) xs st"
    by (induction xs arbitrary: st) (auto split: sum.splits)
qed

lemma forEach_concat:
  "forEach body (concat xss) st = forEach (\<lambda>xs st. forEach body xs st) xss st"
  by (induction xss arbitrary: st) (auto simp: forEach_append split: sum.splits)

lemma metadataLoops_walked:
  "metadataLoops metadataTable entryHeaders =
     forEach (\<lambda>(header, i) st. metadataStep metadataTable header i st) (walked entryHeaders)
       \<lparr>metadataMap = Map.empty, skippedMetaTypes = []\<rparr>"
  by (simp add: metadataLoops_def walked_def forEach_concat forEach_map comp_def)

lemma typeAt_Some:
  assumes "typeAt metadataTable header i = Some t"
  obtains index where
    "MetadataEntryHeader_decode
       (subarray metadataTable (4 * (metadataIndex header + i))
          (4 * (metadataIndex header + i) + MetadataEntryHeader_size)) = Inr (index, t)"
  using assms by (auto simp: typeAt_def split: sum.splits)

lemma typeAt_None:
  assumes "typeAt metadataTable header i = None"
  obtains e where
    "MetadataEntryHeader_decode
       (subarray metadataTable (4 * (metadataIndex header + i))
          (4 * (metadataIndex header + i) + MetadataEntryHeader_size)) = Inl e"
  using assms by (auto simp: typeAt_def split: sum.splits)

lemma metadataStep_unreadable:
  assumes "typeAt metadataTable header i = None"
  shows "isl (metadataStep metadataTable header i st)"
proof -
  from assms obtain e where d: "MetadataEntryHeader_decode
       (subarray metadataTable (4 * (metadataIndex header + i))
          (4 * (metadataIndex header + i) + MetadataEntryHeader_size)) = Inl e"
    by (rule typeAt_None)
  show ?thesis unfolding metadataStep_def Let_def d by (simp add: andThen_def)
qed

lemma metadataStep_skipped:
  assumes "typeAt metadataTable header i = Some t" and "isSkippedType t"
  shows "metadataStep metadataTable header i st
     = Inr (st\<lparr>skippedMetaTypes := Set_add t (skippedMetaTypes st)\<rparr>)"
proof -
  from assms(1) obtain index where d: "MetadataEntryHeader_decode
       (subarray metadataTable (4 * (metadataIndex header + i))
          (4 * (metadataIndex header + i) + MetadataEntryHeader_size)) = Inr (index, t)"
    by (rule typeAt_Some)
  from assms(2) have "t = 130 \<or> t = 131 \<or> t = 3 \<or> t = 4"
    by (simp add: isSkippedType_def)
  then show ?thesis unfolding metadataStep_def Let_def d
    by (elim disjE) (simp_all add: andThen_def)
qed

lemma metadataStep_unknown:
  assumes "typeAt metadataTable header i = Some t"
    and "\<not> isInformativeType t" and "\<not> isSkippedType t"
  shows "metadataStep metadataTable header i st = Inl (UnreachableError t)"
proof -
  from assms(1) obtain index where d: "MetadataEntryHeader_decode
       (subarray metadataTable (4 * (metadataIndex header + i))
          (4 * (metadataIndex header + i) + MetadataEntryHeader_size)) = Inr (index, t)"
    by (rule typeAt_Some)
  from assms(2,3) show ?thesis unfolding metadataStep_def Let_def d
    by (simp add: andThen_def isInformativeType_def isSkippedType_def)
qed

lemma metadataStep_informative:
  assumes "typeAt metadataTable header i = Some t" and "isInformativeType t"
    and "metadataStep metadataTable header i st = Inr st'"
  shows "skippedMetaTypes st' = skippedMetaTypes st"
proof -
  from assms(1) obtain index where d: "MetadataEntryHeader_decode
       (subarray metadataTable (4 * (metadataIndex header + i))
          (4 * (metadataIndex header + i) + MetadataEntryHeader_size)) = Inr (index, t)"
    by (rule typeAt_Some)
  from assms(2) have inf: "t = 1 \<or> t = 2 \<or> t = 128 \<or> t = 129 \<or> t = 132 \<or> t = 5 \<or> t = 6"
    by (simp add: isInformativeType_def)
  from assms(3) have "andThen (descriptor_decode t
        (subarray metadataTable (4 * index) (4 * index + descriptor_size t)))
       (\<lambda>p. Inr (st\<lparr>metadataMap := (metadataMap st)
            (metadataIndex header + i \<mapsto> \<lparr>version_tag = t, meta_payload = p\<rparr>)\<rparr>)) = Inr st'"
    using inf unfolding metadataStep_def Let_def d by (auto simp: andThen_def)
  then show ?thesis
    by (cases "descriptor_decode t (subarray metadataTable (4 * index) (4 * index + descriptor_size t))")
       (auto simp: andThen_def)
qed

lemma metadataStep_success:
  assumes "metadataStep metadataTable header i st = Inr st'"
  obtains t where "typeAt metadataTable header i = Some t" "isSkippedType t"
      "st' = st\<lparr>skippedMetaTypes := Set_add t (skippedMetaTypes st)\<rparr>"
  | t where "typeAt metadataTable header i = Some t" "isInformativeType t" "\<not> isSkippedType t"
      "skippedMetaTypes st' = skippedMetaTypes st"
proof (cases "typeAt metadataTable header i")
  case None
  from metadataStep_unreadable [OF None, of st] assms show ?thesis by simp
next
  case (Some t)
  show ?thesis
  proof (cases "isSkippedType t")
    case True
    with Some assms that(1) show ?thesis by (simp add: metadataStep_skipped)
  next
    case False
    show ?thesis
    proof (cases "isInformativeType t")
      case True
      with Some False assms that(2) metadataStep_informative show ?thesis by blast
    next
      case nInf: False
      with Some False assms show ?thesis by (simp add: metadataStep_unknown)
    qed
  qed
qed

lemma set_Set_add [simp]: "set (Set_add v vs) = insert v (set vs)"
  by (auto simp: Set_add_def)

lemma distinct_Set_add [simp]: "distinct (Set_add v vs) = distinct vs"
  by (auto simp: Set_add_def)

lemma forEach_step_fails:
  assumes "(header, i) \<in> set ps" and "\<And>st. isl (metadataStep metadataTable header i st)"
  shows "isl (forEach (\<lambda>(header, i) st. metadataStep metadataTable header i st) ps st)"
  using assms(1)
proof (induction ps arbitrary: st)
  case Nil
  then show ?case by simp
next
  case (Cons p ps)
  obtain h j where p: "p = (h, j)" by (cases p)
  show ?case
  proof (cases "metadataStep metadataTable h j st")
    case (Inl e)
    then show ?thesis by (simp add: p)
  next
    case (Inr st')
    show ?thesis
    proof (cases "(header, i) = (h, j)")
      case True
      with Inr assms(2) [of st] show ?thesis by simp
    next
      case False
      with Cons.prems p have "(header, i) \<in> set ps" by auto
      from Cons.IH [OF this, of st'] Inr show ?thesis by (simp add: p)
    qed
  qed
qed

lemma forEach_step_skipped_set:
  assumes "forEach (\<lambda>(header, i) st. metadataStep metadataTable header i st) ps st = Inr st'"
  shows "set (skippedMetaTypes st') = set (skippedMetaTypes st)
           \<union> {t. \<exists>(header, i) \<in> set ps. typeAt metadataTable header i = Some t \<and> isSkippedType t}
       \<and> (distinct (skippedMetaTypes st) \<longrightarrow> distinct (skippedMetaTypes st'))"
  using assms
proof (induction ps arbitrary: st)
  case Nil
  then show ?case by simp
next
  case (Cons p ps)
  obtain h j where p: "p = (h, j)" by (cases p)
  from Cons.prems obtain st1 where s1: "metadataStep metadataTable h j st = Inr st1"
    and rest: "forEach (\<lambda>(header, i) st. metadataStep metadataTable header i st) ps st1 = Inr st'"
    by (auto simp: p split: sum.splits)
  note ih = Cons.IH [OF rest]
  from s1 show ?case
  proof (cases rule: metadataStep_success)
    case (1 t)
    with ih show ?thesis by (auto simp: p)
  next
    case (2 t)
    with ih show ?thesis by (auto simp: p)
  qed
qed

lemma forEach_step_all_skipped:
  assumes "\<forall>(header, i) \<in> set ps. \<exists>t. typeAt metadataTable header i = Some t \<and> isSkippedType t"
  shows "\<exists>st'. forEach (\<lambda>(header, i) st. metadataStep metadataTable header i st) ps st = Inr st'
            \<and> metadataMap st' = metadataMap st"
  using assms
proof (induction ps arbitrary: st)
  case Nil
  then show ?case by simp
next
  case (Cons p ps)
  obtain h j where p: "p = (h, j)" by (cases p)
  from Cons.prems p obtain t where t: "typeAt metadataTable h j = Some t" "isSkippedType t"
    by auto
  from Cons.prems have "\<forall>(header, i) \<in> set ps. \<exists>t. typeAt metadataTable header i = Some t \<and> isSkippedType t"
    by simp
  from Cons.IH [OF this, of "st\<lparr>skippedMetaTypes := Set_add t (skippedMetaTypes st)\<rparr>"]
  show ?case by (simp add: p metadataStep_skipped [OF t])
qed

lemma createMetadataMap_unfold:
  assumes "readMetadataTable inflateSync file h = Inr tbl"
  shows "createMetadataMap inflateSync file h entryHeaders =
     (case forEach (\<lambda>(header, i) st. metadataStep tbl header i st) (walked entryHeaders)
             \<lparr>metadataMap = Map.empty, skippedMetaTypes = []\<rparr> of
        Inl e \<Rightarrow> Inl e
      | Inr st \<Rightarrow> Inr (metadataMap st,
            if skippedMetaTypes st \<noteq> []
            then [Warn ''skipped metadata types'' (skippedMetaTypes st)] else []))"
  by (simp add: createMetadataMap_def assms andThen_def metadataLoops_walked split: sum.splits)

lemma parseEntries_metadata_error:
  assumes "isValid (archive_header a)" and "archive_entries a = None"
    and "readEntryTable inflateSync file (archive_header a) = Inr entryTable"
    and "Array_decode EntryV2Header_decode (entryTableCount (archive_header a)) entryTable
           = Inr entryHeaders"
    and "isl (createMetadataMap inflateSync file (archive_header a) entryHeaders)"
  shows "isl (parseEntries inflateSync gdeflate city64 file a)"
proof -
  from assms(5) obtain e where
    "createMetadataMap inflateSync file (archive_header a) entryHeaders = Inl e"
    by (cases "createMetadataMap inflateSync file (archive_header a) entryHeaders") auto
  with assms(1-4) show ?thesis
    by (simp add: parseEntries_def andThen_def)
qed

text \<open>
  C6. In the walk over the metadata headers of the entries, a header whose type tag is
  \<open>MIP_PROXY\<close>, \<open>MIP_0\<close>, \<open>MIP_1\<close> or \<open>INLINE_DIRECTORY\<close> is skipped without error: the
  step only adds its tag to the set of skipped tags, and a table whose walked headers are
  all of these types gives an empty metadata map. A header whose tag is neither
  informative nor skipped makes the step throw. When \<open>createMetadataMap\<close> returns, it
  has logged at most one warning, which lists exactly the skipped tags met (each once),
  and none when no header was skipped. When some walked header has an unrecognized tag,
  \<open>createMetadataMap\<close> throws, and so does \<open>parseEntries\<close> on a valid archive that has
  not been parsed before.
\<close>

theorem createMetadataMap_skips_and_rejects:
  "(typeAt tbl header i = Some t \<and> isSkippedType t \<longrightarrow>
      metadataStep tbl header i st
        = Inr (st\<lparr>skippedMetaTypes := Set_add t (skippedMetaTypes st)\<rparr>))
   \<and> (typeAt tbl header i = Some t \<and> \<not> isInformativeType t \<and> \<not> isSkippedType t \<longrightarrow>
      metadataStep tbl header i st = Inl (UnreachableError t))
   \<and> (readMetadataTable inflateSync file h = Inr tbl
       \<and> (\<forall>(hd, j) \<in> set (walked entryHeaders). \<exists>t. typeAt tbl hd j = Some t \<and> isSkippedType t) \<longrightarrow>
      (\<exists>logged. createMetadataMap inflateSync file h entryHeaders = Inr (Map.empty, logged)))
   \<and> (readMetadataTable inflateSync file h = Inr tbl
       \<and> createMetadataMap inflateSync file h entryHeaders = Inr (m, logged) \<longrightarrow>
      length logged \<le> 1
      \<and> (logged = [] \<longleftrightarrow>
           {t. \<exists>(hd, j) \<in> set (walked entryHeaders). typeAt tbl hd j = Some t \<and> isSkippedType t} = {})
      \<and> (\<forall>msg \<in> set logged. \<exists>ts. msg = Warn ''skipped metadata types'' ts \<and> distinct ts
           \<and> set ts = {t. \<exists>(hd, j) \<in> set (walked entryHeaders).
                          typeAt tbl hd j = Some t \<and> isSkippedType t}))
   \<and> (readMetadataTable inflateSync file h = Inr tbl
       \<and> (header, i) \<in> set (walked entryHeaders) \<and> typeAt tbl header i = Some t
       \<and> \<not> isInformativeType t \<and> \<not> isSkippedType t \<longrightarrow>
      isl (createMetadataMap inflateSync file h entryHeaders)
      \<and> (isValid h \<and> readEntryTable inflateSync file h = Inr entryTable
          \<and> Array_decode EntryV2Header_decode (entryTableCount h) entryTable = Inr entryHeaders \<longrightarrow>
         isl (parseEntries inflateSync gdeflate city64 file
                \<lparr>archive_header = h, archive_entries = None\<rparr>)))"
proof -
  let ?step = "\<lambda>(header, i) st. metadataStep tbl header i st"
  let ?st0 = "\<lparr>metadataMap = Map.empty, skippedMetaTypes = []\<rparr>"
  let ?S = "{t. \<exists>(hd, j) \<in> set (walked entryHeaders). typeAt tbl hd j = Some t \<and> isSkippedType t}"
  have p1: "typeAt tbl header i = Some t \<and> isSkippedType t \<longrightarrow>
      metadataStep tbl header i st
        = Inr (st\<lparr>skippedMetaTypes := Set_add t (skippedMetaTypes st)\<rparr>)"
    by (simp add: metadataStep_skipped)
  have p2: "typeAt tbl header i = Some t \<and> \<not> isInformativeType t \<and> \<not> isSkippedType t \<longrightarrow>
      metadataStep tbl header i st = Inl (UnreachableError t)"
    by (simp add: metadataStep_unknown)
  have p3: "\<exists>logged. createMetadataMap inflateSync file h entryHeaders = Inr (Map.empty, logged)"
    if r: "readMetadataTable inflateSync file h = Inr tbl"
    and a: "\<forall>(hd, j) \<in> set (walked entryHeaders). \<exists>t. typeAt tbl hd j = Some t \<and> isSkippedType t"
  proof -
    from forEach_step_all_skipped [OF a, of ?st0]
    obtain st' where "forEach ?step (walked entryHeaders) ?st0 = Inr st'"
      "metadataMap st' = Map.empty" by auto
    then show ?thesis by (simp add: createMetadataMap_unfold [OF r])
  qed
  have p4: "length logged \<le> 1 \<and> (logged = [] \<longleftrightarrow> ?S = {})
      \<and> (\<forall>msg \<in> set logged. \<exists>ts. msg = Warn ''skipped metadata types'' ts \<and> distinct ts
           \<and> set ts = ?S)"
    if r: "readMetadataTable inflateSync file h = Inr tbl"
    and c: "createMetadataMap inflateSync file h entryHeaders = Inr (m, logged)"
  proof -
    from c obtain st' where f: "forEach ?step (walked entryHeaders) ?st0 = Inr st'"
      and l: "logged = (if skippedMetaTypes st' \<noteq> []
            then [Warn ''skipped metadata types'' (skippedMetaTypes st')] else [])"
      by (auto simp: createMetadataMap_unfold [OF r] split: sum.splits)
    from forEach_step_skipped_set [OF f]
    have s: "set (skippedMetaTypes st') = ?S" and d: "distinct (skippedMetaTypes st')"
      by simp_all
    show ?thesis
    proof (cases "skippedMetaTypes st' = []")
      case True
      with s l show ?thesis by simp
    next
      case False
      with s have "?S \<noteq> {}" by (metis set_empty)
      with False s d l show ?thesis by simp
    qed
  qed
  have p5: "isl (createMetadataMap inflateSync file h entryHeaders)"
    if r: "readMetadataTable inflateSync file h = Inr tbl"
    and w: "(header, i) \<in> set (walked entryHeaders)"
    and u: "typeAt tbl header i = Some t" "\<not> isInformativeType t" "\<not> isSkippedType t"
  proof -
    have "isl (forEach ?step (walked entryHeaders) ?st0)"
      by (rule forEach_step_fails [OF w]) (simp add: metadataStep_unknown [OF u])
    then show ?thesis
      by (auto simp: createMetadataMap_unfold [OF r] split: sum.splits)
  qed
  have p6: "isl (parseEntries inflateSync gdeflate city64 file
                \<lparr>archive_header = h, archive_entries = None\<rparr>)"
    if "isl (createMetadataMap inflateSync file h entryHeaders)"
      "isValid h" "readEntryTable inflateSync file h = Inr entryTable"
      "Array_decode EntryV2Header_decode (entryTableCount h) entryTable = Inr entryHeaders"
    using that by (intro parseEntries_metadata_error [where entryTable = entryTable
          and entryHeaders = entryHeaders]) simp_all
  from p1 p2 p3 p4 p5 p6 show ?thesis by blast
qed

lemma le_value_simps [simp]: "le_value [] = 0" "le_value (b # bs) = unat b + 256 * le_value bs"
  by (simp_all add: le_value_def)

lemma ex_entry_decode:
  "EntryV2Header_decode (example_entry_bytes 3 @ rest) = Inr (example_entry 3, rest)"
  "EntryV2Header_decode (example_entry_bytes 2 @ rest) = Inr (example_entry 2, rest)"
  by (simp_all add: EntryV2Header_decode_def example_entry_bytes_def read_uint_def andThen_def
        example_entry_def)

lemma ex_typeAt_skipped:
  "typeAt example_skipped_table (example_entry 3) 0 = Some 3"
  "typeAt example_skipped_table (example_entry 3) 1 = Some 130"
  "typeAt example_skipped_table (example_entry 3) 2 = Some 3"
  by (simp_all add: typeAt_def example_skipped_table_def example_entry_def subarray_def
        MetadataEntryHeader_decode_def MetadataEntryHeader_size_def read_uint_def andThen_def)

lemma ex_typeAt_unknown:
  "typeAt example_unknown_table (example_entry 2) 0 = Some 3"
  "typeAt example_unknown_table (example_entry 2) 1 = Some 7"
  by (simp_all add: typeAt_def example_unknown_table_def example_entry_def subarray_def
        MetadataEntryHeader_decode_def MetadataEntryHeader_size_def read_uint_def andThen_def)

lemma ex_walked:
  "walked [example_entry 3] = [(example_entry 3, 0), (example_entry 3, 1), (example_entry 3, 2)]"
  "walked [example_entry 2] = [(example_entry 2, 0), (example_entry 2, 1)]"
  by (simp_all add: walked_def example_entry_def upt_rec)

lemma ex_read_tables:
  "readMetadataTable (\<lambda>b. Inl ZlibError) (example_entry_bytes 3 @ example_skipped_table)
     (example_archive_header 12) = Inr example_skipped_table"
  "readMetadataTable (\<lambda>b. Inl ZlibError) (example_entry_bytes 2 @ example_unknown_table)
     (example_archive_header 8) = Inr example_unknown_table"
  "readEntryTable (\<lambda>b. Inl ZlibError) (example_entry_bytes 2 @ example_unknown_table)
     (example_archive_header 8) = Inr (example_entry_bytes 2)"
  by (simp_all add: readMetadataTable_def readEntryTable_def readData_def readSync_def
        example_archive_header_def example_entry_bytes_def example_skipped_table_def
        example_unknown_table_def EntryV2Header_size_def)

lemma ex_entry_table:
  "Array_decode EntryV2Header_decode (entryTableCount (example_archive_header 8))
     (example_entry_bytes 2) = Inr [example_entry 2]"
  using ex_entry_decode(2) [of "[]"]
  by (simp add: example_archive_header_def)

lemma ex_isValid: "isValid (example_archive_header 8)"
  by (simp add: isValid_def example_archive_header_def)

lemma ex_typeAt_skipped_Suc:
  "typeAt example_skipped_table (example_entry 3) (Suc 0) = Some 130"
  using ex_typeAt_skipped(2) by simp

lemma ex_skipped_loops:
  "createMetadataMap (\<lambda>b. Inl ZlibError) (example_entry_bytes 3 @ example_skipped_table)
     (example_archive_header 12) [example_entry 3]
   = Inr (Map.empty, [Warn ''skipped metadata types'' [3, 130]])"
  by (simp add: createMetadataMap_unfold [OF ex_read_tables(1)] ex_walked
        metadataStep_skipped [OF ex_typeAt_skipped(1)] metadataStep_skipped [OF ex_typeAt_skipped_Suc]
        metadataStep_skipped [OF ex_typeAt_skipped(3)] isSkippedType_def Set_add_def)

theorem createMetadataMap_skips_and_rejects_witness:
  "typeAt example_skipped_table (example_entry 3) 1 = Some MIP_0 \<and> isSkippedType MIP_0
   \<and> metadataStep example_skipped_table (example_entry 3) 1
        \<lparr>metadataMap = Map.empty, skippedMetaTypes = [3]\<rparr>
      = Inr \<lparr>metadataMap = Map.empty, skippedMetaTypes = [3, 130]\<rparr>
   \<and> createMetadataMap (\<lambda>b. Inl ZlibError) (example_entry_bytes 3 @ example_skipped_table)
        (example_archive_header 12) [example_entry 3]
      = Inr (Map.empty, [Warn ''skipped metadata types'' [3, 130]])
   \<and> typeAt example_unknown_table (example_entry 2) 1 = Some 7
   \<and> \<not> isInformativeType 7 \<and> \<not> isSkippedType 7
   \<and> metadataStep example_unknown_table (example_entry 2) 1
        \<lparr>metadataMap = Map.empty, skippedMetaTypes = [3]\<rparr> = Inl (UnreachableError 7)
   \<and> isl (createMetadataMap (\<lambda>b. Inl ZlibError) (example_entry_bytes 2 @ example_unknown_table)
        (example_archive_header 8) [example_entry 2])
   \<and> isl (parseEntries (\<lambda>b. Inl ZlibError) (\<lambda>i out. (1, [])) (\<lambda>s. 0)
        (example_entry_bytes 2 @ example_unknown_table)
        \<lparr>archive_header = example_archive_header 8, archive_entries = None\<rparr>)"
proof -
  have k: "isSkippedType MIP_0" "\<not> isInformativeType 7" "\<not> isSkippedType 7"
    by (simp_all add: isSkippedType_def isInformativeType_def)
  note t1 = createMetadataMap_skips_and_rejects
    [where tbl = example_skipped_table and header = "example_entry 3" and i = 1 and t = MIP_0
      and st = "\<lparr>metadataMap = Map.empty, skippedMetaTypes = [3]\<rparr>"
      and inflateSync = "\<lambda>b. Inl ZlibError"
      and ?file = "example_entry_bytes 3 @ example_skipped_table"
      and h = "example_archive_header 12" and entryHeaders = "[example_entry 3]"
      and m = Map.empty and logged = "[Warn ''skipped metadata types'' [3, 130]]"]
  note t2 = createMetadataMap_skips_and_rejects
    [where tbl = example_unknown_table and header = "example_entry 2" and i = 1 and t = 7
      and st = "\<lparr>metadataMap = Map.empty, skippedMetaTypes = [3]\<rparr>"
      and inflateSync = "\<lambda>b. Inl ZlibError"
      and ?file = "example_entry_bytes 2 @ example_unknown_table"
      and h = "example_archive_header 8" and entryHeaders = "[example_entry 2]"
      and entryTable = "example_entry_bytes 2" and gdeflate = "\<lambda>i out. (1, [])"
      and ?city64.0 = "\<lambda>s. 0"]
  from t1 k ex_typeAt_skipped
  have a: "metadataStep example_skipped_table (example_entry 3) 1
        \<lparr>metadataMap = Map.empty, skippedMetaTypes = [3]\<rparr>
      = Inr \<lparr>metadataMap = Map.empty, skippedMetaTypes = [3, 130]\<rparr>"
    by (simp add: Set_add_def)
  from t2 k ex_typeAt_unknown
  have b: "metadataStep example_unknown_table (example_entry 2) 1
        \<lparr>metadataMap = Map.empty, skippedMetaTypes = [3]\<rparr> = Inl (UnreachableError 7)"
    by simp
  from t2 k ex_typeAt_unknown ex_read_tables ex_walked ex_entry_table ex_isValid
  have c: "isl (createMetadataMap (\<lambda>b. Inl ZlibError) (example_entry_bytes 2 @ example_unknown_table)
        (example_archive_header 8) [example_entry 2])
   \<and> isl (parseEntries (\<lambda>b. Inl ZlibError) (\<lambda>i out. (1, [])) (\<lambda>s. 0)
        (example_entry_bytes 2 @ example_unknown_table)
        \<lparr>archive_header = example_archive_header 8, archive_entries = None\<rparr>)"
    by (simp add: example_archive_header_def)
  from a b c k ex_typeAt_skipped ex_typeAt_unknown ex_skipped_loops show ?thesis by simp
qed

section \<open>Properties of the road scan\<close>

lemma fst_partitionItems:
  "fst (partitionItems its) = List.map_filter (\<lambda>i. case i of RoadItem r \<Rightarrow> Some r | _ \<Rightarrow> None) its"
  by (induction its) (auto split: prod.splits Item.splits)

lemma set_fst_partitionItems: "r \<in> set (fst (partitionItems its)) \<longleftrightarrow> RoadItem r \<in> set its"
  by (induction its) (auto split: prod.splits Item.splits)

lemma set_snd_partitionItems:
  "d \<in> set (snd (partitionItems its)) \<longleftrightarrow>
     (\<exists>t. d = DTerrain t \<and> TerrainItem t \<in> set its)
   \<or> (\<exists>b. d = DBuilding b \<and> BuildingItem b \<in> set its \<and> scheme b = ''scheme20'')
   \<or> (\<exists>c. d = DCurve c \<and> CurveItem c \<in> set its \<and> (model c = ''0i03a'' \<or> model c = ''0i03b''))"
proof (induction its)
  case Nil
  show ?case by simp
next
  case (Cons i its)
  show ?case
  proof (cases i)
    case (RoadItem r)
    with Cons show ?thesis by (auto split: prod.splits)
  next
    case (TerrainItem t)
    with Cons show ?thesis by (auto split: prod.splits)
  next
    case (BuildingItem b)
    with Cons show ?thesis by (auto split: prod.splits)
  next
    case (CurveItem c)
    with Cons show ?thesis by (auto split: prod.splits)
  next
    case (OtherItem u)
    with Cons show ?thesis by (auto split: prod.splits)
  qed
qed

lemma splitsRoad_iff:
  "splitsRoad nodesByUid rStart rEnd d \<longleftrightarrow>
     (\<exists>tStart tEnd. nodesByUid (divider_start d) = Some tStart
        \<and> nodesByUid (divider_end d) = Some tEnd
        \<and> ((distance rStart tStart < 2 \<and> distance rEnd tEnd < 2)
            \<or> (distance rStart tEnd < 2 \<and> distance rEnd tStart < 2)))"
  by (auto simp: splitsRoad_def threshold_def split: option.splits)

lemma divider_swap [simp]:
  "divider_start (swapDivider d) = divider_end d" "divider_end (swapDivider d) = divider_start d"
  by (cases d; simp)+

lemma splitsRoad_swapDivider:
  "splitsRoad nodesByUid rStart rEnd (swapDivider d) = splitsRoad nodesByUid rStart rEnd d"
  by (auto simp: splitsRoad_iff)

lemma partitionItems_Cons_fst:
  "fst (partitionItems (i # its)) =
     (case i of RoadItem r \<Rightarrow> r # fst (partitionItems its) | _ \<Rightarrow> fst (partitionItems its))"
  by (auto split: prod.splits Item.splits)

lemma partitionItems_Cons_snd:
  "snd (partitionItems (i # its)) =
     (case i of
        RoadItem r \<Rightarrow> snd (partitionItems its)
      | TerrainItem t \<Rightarrow> DTerrain t # snd (partitionItems its)
      | BuildingItem b \<Rightarrow>
          if scheme b = ''scheme20'' then DBuilding b # snd (partitionItems its)
          else snd (partitionItems its)
      | CurveItem c \<Rightarrow>
          if model c = ''0i03a'' \<or> model c = ''0i03b'' then DCurve c # snd (partitionItems its)
          else snd (partitionItems its)
      | OtherItem u \<Rightarrow> snd (partitionItems its))"
  by (auto split: prod.splits Item.splits)

lemma partitionItems_swapped:
  assumes "\<forall>i \<in> set its. g i = i \<or> g i = swapEnds i"
  shows "fst (partitionItems (map g its)) = fst (partitionItems its)
       \<and> list_all2 (\<lambda>d d'. d' = d \<or> d' = swapDivider d)
            (snd (partitionItems its)) (snd (partitionItems (map g its)))"
  using assms
proof (induction its)
  case Nil
  show ?case by simp
next
  case (Cons i its)
  then have ih: "fst (partitionItems (map g its)) = fst (partitionItems its)"
    "list_all2 (\<lambda>d d'. d' = d \<or> d' = swapDivider d)
            (snd (partitionItems its)) (snd (partitionItems (map g its)))"
    by simp_all
  from Cons.prems have gi: "g i = i \<or> g i = swapEnds i" by simp
  have "fst (partitionItems (g i # map g its)) = fst (partitionItems (i # its))
       \<and> list_all2 (\<lambda>d d'. d' = d \<or> d' = swapDivider d)
            (snd (partitionItems (i # its))) (snd (partitionItems (g i # map g its)))"
    unfolding partitionItems_Cons_fst partitionItems_Cons_snd
    using gi ih by (cases i) auto
  then show ?case by simp
qed

lemma list_ex_related:
  assumes "list_all2 R xs ys" and "\<And>x y. R x y \<Longrightarrow> P x = P y"
  shows "list_ex P xs = list_ex P ys"
  using assms(1)
proof (induction rule: list_all2_induct)
  case Nil
  show ?case by simp
next
  case (Cons x xs y ys)
  with assms(2) [of x y] show ?case by simp
qed

lemma flagRoad_swapped:
  assumes "list_all2 (\<lambda>d d'. d' = d \<or> d' = swapDivider d) ds ds'"
  shows "flagRoad nodesByUid ds' r = flagRoad nodesByUid ds r"
proof -
  have "list_ex (splitsRoad nodesByUid rStart rEnd) ds = list_ex (splitsRoad nodesByUid rStart rEnd) ds'"
    for rStart rEnd
    by (rule list_ex_related [OF assms]) (auto simp: splitsRoad_swapDivider)
  then show ?thesis by (simp add: flagRoad_def split: option.splits)
qed

lemma flagRoad_cases:
  assumes "nodesByUid (startNodeUid r) = Some rStart" "nodesByUid (endNodeUid r) = Some rEnd"
  shows "flagRoad nodesByUid ds r =
     Some (if \<exists>d \<in> set ds. splitsRoad nodesByUid rStart rEnd d
           then r\<lparr>maybeDivided := Some True\<rparr> else r)"
  using assms by (simp add: flagRoad_def list_ex_iff)

lemma scan_roads_scanSector:
  "scan_roads (scanSector nodesByUid sectorItems st) =
     scan_roads st @ List.map_filter (flagRoad nodesByUid (snd (partitionItems sectorItems)))
        (fst (partitionItems sectorItems))"
  by (simp add: scanSector_def Let_def split: prod.splits)

lemma scan_roads_scanSectors_aux:
  "scan_roads (foldl (\<lambda>st sectorItems. scanSector nodesByUid sectorItems st) st sectors) =
     scan_roads st @ concat (map (\<lambda>sectorItems.
        List.map_filter (flagRoad nodesByUid (snd (partitionItems sectorItems)))
          (fst (partitionItems sectorItems))) sectors)"
  by (induction sectors arbitrary: st) (simp_all add: scan_roads_scanSector)

lemma map_filter_memI:
  "v \<in> set vs \<Longrightarrow> f v = Some w \<Longrightarrow> w \<in> set (List.map_filter f vs)"
  by (induction vs) (auto split: option.splits)

lemma distance_less_2:
  "distance a b < 2 \<longleftrightarrow> (node_x a - node_x b)\<^sup>2 + (node_y a - node_y b)\<^sup>2 < 4"
proof -
  have "sqrt ((node_x a - node_x b)\<^sup>2 + (node_y a - node_y b)\<^sup>2) < sqrt 4
      \<longleftrightarrow> (node_x a - node_x b)\<^sup>2 + (node_y a - node_y b)\<^sup>2 < 4"
    by (rule real_sqrt_less_iff)
  then show ?thesis by (simp add: distance_def)
qed

text \<open>
  C7, as amended. A road item of a sector whose start and end nodes are known (and that
  does not carry the flag already) is pushed to \<open>roads\<close>, and it is pushed with
  \<open>maybeDivided: true\<close> exactly when some divider of the same sector (a terrain, a
  building with scheme \<open>scheme20\<close>, a curve with model \<open>0i03a\<close> or \<open>0i03b\<close>) has known
  end nodes that lie at a Euclidean distance strictly below 2 (the source compares with
  \<open><\<close>) from the road's end nodes, start to start and end to end, or start to end and
  end to start. Exchanging the start and end nodes of any of the sector's dividers
  changes neither the flag nor the roads pushed. The roads emitted are those pushed for
  each sector, in order.
\<close>

theorem road_flagged_iff_divider_near:
  assumes "RoadItem r \<in> set sectorItems"
    and "nodesByUid (startNodeUid r) = Some rStart"
    and "nodesByUid (endNodeUid r) = Some rEnd"
    and "maybeDivided r = None"
  shows "(case flagRoad nodesByUid (snd (partitionItems sectorItems)) r of
            None \<Rightarrow> False
          | Some r' \<Rightarrow>
              r' \<in> set (scan_roads (scanSector nodesByUid sectorItems st))
              \<and> (maybeDivided r' = Some True \<longleftrightarrow>
                   (\<exists>d tStart tEnd.
                      ((\<exists>t. d = DTerrain t \<and> TerrainItem t \<in> set sectorItems)
                       \<or> (\<exists>b. d = DBuilding b \<and> BuildingItem b \<in> set sectorItems
                              \<and> scheme b = ''scheme20'')
                       \<or> (\<exists>c. d = DCurve c \<and> CurveItem c \<in> set sectorItems
                              \<and> (model c = ''0i03a'' \<or> model c = ''0i03b'')))
                      \<and> nodesByUid (divider_start d) = Some tStart
                      \<and> nodesByUid (divider_end d) = Some tEnd
                      \<and> ((distance rStart tStart < 2 \<and> distance rEnd tEnd < 2)
                          \<or> (distance rStart tEnd < 2 \<and> distance rEnd tStart < 2)))))
       \<and> ((\<forall>i \<in> set sectorItems. g i = i \<or> g i = swapEnds i) \<longrightarrow>
            flagRoad nodesByUid (snd (partitionItems (map g sectorItems))) r
              = flagRoad nodesByUid (snd (partitionItems sectorItems)) r
            \<and> scan_roads (scanSector nodesByUid (map g sectorItems) st)
              = scan_roads (scanSector nodesByUid sectorItems st))
       \<and> scan_roads (scanSectors nodesByUid sectors referencedNodeUids)
            = concat (map (\<lambda>its. List.map_filter (flagRoad nodesByUid (snd (partitionItems its)))
                                   (fst (partitionItems its))) sectors)"
proof -
  let ?ds = "snd (partitionItems sectorItems)"
  let ?near = "\<exists>d tStart tEnd.
                      ((\<exists>t. d = DTerrain t \<and> TerrainItem t \<in> set sectorItems)
                       \<or> (\<exists>b. d = DBuilding b \<and> BuildingItem b \<in> set sectorItems
                              \<and> scheme b = ''scheme20'')
                       \<or> (\<exists>c. d = DCurve c \<and> CurveItem c \<in> set sectorItems
                              \<and> (model c = ''0i03a'' \<or> model c = ''0i03b'')))
                      \<and> nodesByUid (divider_start d) = Some tStart
                      \<and> nodesByUid (divider_end d) = Some tEnd
                      \<and> ((distance rStart tStart < 2 \<and> distance rEnd tEnd < 2)
                          \<or> (distance rStart tEnd < 2 \<and> distance rEnd tStart < 2))"
  define r' where "r' = (if \<exists>d \<in> set ?ds. splitsRoad nodesByUid rStart rEnd d
           then r\<lparr>maybeDivided := Some True\<rparr> else r)"
  have fl: "flagRoad nodesByUid ?ds r = Some r'"
    by (simp add: flagRoad_cases [OF assms(2,3)] r'_def)
  define A where "A = (\<lambda>d. (\<exists>t. d = DTerrain t \<and> TerrainItem t \<in> set sectorItems)
                       \<or> (\<exists>b. d = DBuilding b \<and> BuildingItem b \<in> set sectorItems
                              \<and> scheme b = ''scheme20'')
                       \<or> (\<exists>c. d = DCurve c \<and> CurveItem c \<in> set sectorItems
                              \<and> (model c = ''0i03a'' \<or> model c = ''0i03b'')))"
  define N where "N = (\<lambda>d tStart tEnd. nodesByUid (divider_start d) = Some tStart
                      \<and> nodesByUid (divider_end d) = Some tEnd
                      \<and> ((distance rStart tStart < 2 \<and> distance rEnd tEnd < 2)
                          \<or> (distance rStart tEnd < 2 \<and> distance rEnd tStart < 2)))"
  have mem_ds: "d \<in> set ?ds \<longleftrightarrow> A d" for d
    unfolding A_def by (rule set_snd_partitionItems)
  have sp: "splitsRoad nodesByUid rStart rEnd d \<longleftrightarrow> (\<exists>tStart tEnd. N d tStart tEnd)" for d
    unfolding N_def by (rule splitsRoad_iff)
  have "(\<exists>d \<in> set ?ds. splitsRoad nodesByUid rStart rEnd d)
      \<longleftrightarrow> (\<exists>d tStart tEnd. A d \<and> N d tStart tEnd)"
    unfolding Bex_def mem_ds sp by blast
  then have ex: "(\<exists>d \<in> set ?ds. splitsRoad nodesByUid rStart rEnd d) \<longleftrightarrow> ?near"
    unfolding A_def N_def by (simp only: conj_assoc)
  have flag: "maybeDivided r' = Some True \<longleftrightarrow> ?near"
  proof (cases "\<exists>d \<in> set ?ds. splitsRoad nodesByUid rStart rEnd d")
    case True
    then have "maybeDivided r' = Some True" by (simp add: r'_def)
    with True ex show ?thesis by simp
  next
    case False
    then have "maybeDivided r' = None" using assms(4) by (simp add: r'_def)
    with False ex show ?thesis by simp
  qed
  from assms(1) have rin: "r \<in> set (fst (partitionItems sectorItems))"
    by (simp add: set_fst_partitionItems)
  have "r' \<in> set (List.map_filter (flagRoad nodesByUid ?ds) (fst (partitionItems sectorItems)))"
    using rin fl by (rule map_filter_memI)
  then have mem: "r' \<in> set (scan_roads (scanSector nodesByUid sectorItems st))"
    by (simp add: scan_roads_scanSector)
  have sw: "flagRoad nodesByUid (snd (partitionItems (map g sectorItems))) r
              = flagRoad nodesByUid ?ds r
            \<and> scan_roads (scanSector nodesByUid (map g sectorItems) st)
              = scan_roads (scanSector nodesByUid sectorItems st)"
    if g: "\<forall>i \<in> set sectorItems. g i = i \<or> g i = swapEnds i"
  proof -
    note p = partitionItems_swapped [OF g]
    from p have e: "flagRoad nodesByUid (snd (partitionItems (map g sectorItems)))
              = flagRoad nodesByUid ?ds"
      by (intro ext) (simp add: flagRoad_swapped)
    from p e show ?thesis by (simp add: scan_roads_scanSector)
  qed
  have all: "scan_roads (scanSectors nodesByUid sectors referencedNodeUids)
            = concat (map (\<lambda>its. List.map_filter (flagRoad nodesByUid (snd (partitionItems its)))
                                   (fst (partitionItems its))) sectors)"
    by (simp add: scanSectors_def scan_roads_scanSectors_aux)
  from flag mem have c1: "case flagRoad nodesByUid ?ds r of
            None \<Rightarrow> False
          | Some r' \<Rightarrow>
              r' \<in> set (scan_roads (scanSector nodesByUid sectorItems st))
              \<and> (maybeDivided r' = Some True \<longleftrightarrow> ?near)"
    unfolding fl by simp
  from sw have c2: "(\<forall>i \<in> set sectorItems. g i = i \<or> g i = swapEnds i) \<longrightarrow>
            flagRoad nodesByUid (snd (partitionItems (map g sectorItems))) r
              = flagRoad nodesByUid (snd (partitionItems sectorItems)) r
            \<and> scan_roads (scanSector nodesByUid (map g sectorItems) st)
              = scan_roads (scanSector nodesByUid sectorItems st)"
    by blast
  from c1 c2 all show ?thesis by (intro conjI)
qed

lemma ex_road_nodes:
  "example_nodesByUid (startNodeUid example_road) = Some (example_node 1 0 0)"
  "example_nodesByUid (endNodeUid example_road) = Some (example_node 2 100 0)"
  "maybeDivided example_road = None"
  by (simp_all add: example_nodesByUid_def example_road_def)

lemma ex_flag_near:
  "flagRoad example_nodesByUid [DTerrain example_terrain_near] example_road
   = Some (example_road\<lparr>maybeDivided := Some True\<rparr>)"
  by (subst flagRoad_cases [OF ex_road_nodes(1,2)])
     (simp add: splitsRoad_iff distance_less_2
        example_terrain_near_def example_nodesByUid_def example_node_def power2_eq_square)

lemma ex_flag_far:
  "flagRoad example_nodesByUid [DTerrain example_terrain_far] example_road = Some example_road"
  by (subst flagRoad_cases [OF ex_road_nodes(1,2)])
     (simp add: splitsRoad_iff distance_less_2
        example_terrain_far_def example_nodesByUid_def example_node_def power2_eq_square)

lemma ex_partition:
  "partitionItems [RoadItem example_road, TerrainItem example_terrain_near]
     = ([example_road], [DTerrain example_terrain_near])"
  "partitionItems [RoadItem example_road, TerrainItem example_terrain_far]
     = ([example_road], [DTerrain example_terrain_far])"
  by simp_all

theorem road_flagged_iff_divider_near_witness:
  "RoadItem example_road \<in> set [RoadItem example_road, TerrainItem example_terrain_near]
   \<and> example_nodesByUid (startNodeUid example_road) = Some (example_node 1 0 0)
   \<and> example_nodesByUid (endNodeUid example_road) = Some (example_node 2 100 0)
   \<and> maybeDivided example_road = None
   \<and> flagRoad example_nodesByUid
        (snd (partitionItems [RoadItem example_road, TerrainItem example_terrain_near])) example_road
      = Some (example_road\<lparr>maybeDivided := Some True\<rparr>)
   \<and> flagRoad example_nodesByUid
        (snd (partitionItems (map swapEnds [RoadItem example_road, TerrainItem example_terrain_near])))
        example_road
      = Some (example_road\<lparr>maybeDivided := Some True\<rparr>)
   \<and> flagRoad example_nodesByUid
        (snd (partitionItems [RoadItem example_road, TerrainItem example_terrain_far])) example_road
      = Some example_road
   \<and> scan_roads (scanSectors example_nodesByUid
        [[RoadItem example_road, TerrainItem example_terrain_near],
         [RoadItem example_road, TerrainItem example_terrain_far]] [])
      = [example_road\<lparr>maybeDivided := Some True\<rparr>, example_road]"
proof -
  have m: "RoadItem example_road \<in> set [RoadItem example_road, TerrainItem example_terrain_near]"
    by simp
  have g: "\<forall>i \<in> set [RoadItem example_road, TerrainItem example_terrain_near].
             swapEnds i = i \<or> swapEnds i = swapEnds i"
    by simp
  note t = road_flagged_iff_divider_near [OF m ex_road_nodes,
      where g = swapEnds and st = "\<lparr>scan_roads = [], scan_dividers = [],
        scan_referencedNodeUids = [], scan_splitCount = 0\<rparr>"
      and sectors = "[[RoadItem example_road, TerrainItem example_terrain_near],
         [RoadItem example_road, TerrainItem example_terrain_far]]" and referencedNodeUids = "[]"]
  from t [THEN conjunct2, THEN conjunct1, THEN mp, OF g, THEN conjunct1]
  have sw: "flagRoad example_nodesByUid
        (snd (partitionItems (map swapEnds [RoadItem example_road, TerrainItem example_terrain_near])))
        example_road
      = Some (example_road\<lparr>maybeDivided := Some True\<rparr>)"
    by (simp only: ex_partition snd_conv ex_flag_near)
  from t [THEN conjunct2, THEN conjunct2]
  have al: "scan_roads (scanSectors example_nodesByUid
        [[RoadItem example_road, TerrainItem example_terrain_near],
         [RoadItem example_road, TerrainItem example_terrain_far]] [])
      = [example_road\<lparr>maybeDivided := Some True\<rparr>, example_road]"
    by (simp only: ex_partition snd_conv fst_conv list.map concat.simps append.simps
          List.map_filter_simps ex_flag_near ex_flag_far option.case)
  from m ex_road_nodes sw al show ?thesis
    by (simp only: ex_partition snd_conv ex_flag_near ex_flag_far simp_thms)
qed

text \<open>
  C7 as stated fails at the bound: a terrain whose start node lies exactly 2 away from
  the road's start node, and whose end node is the road's end node, has both ends within
  distance 2 of the road's ends, and the road is pushed without the flag.
\<close>

theorem road_flagged_counterexample:
  "example_nodes_at_two (startNodeUid example_road) = Some (example_node 1 0 0)
   \<and> example_nodes_at_two (endNodeUid example_road) = Some (example_node 2 100 0)
   \<and> example_nodes_at_two (startNodeUid example_terrain_at_two) = Some (example_node 8 2 0)
   \<and> example_nodes_at_two (endNodeUid example_terrain_at_two) = Some (example_node 2 100 0)
   \<and> distance (example_node 1 0 0) (example_node 8 2 0) = 2
   \<and> distance (example_node 2 100 0) (example_node 2 100 0) = 0
   \<and> maybeDivided example_road = None
   \<and> flagRoad example_nodes_at_two
        (snd (partitionItems [RoadItem example_road, TerrainItem example_terrain_at_two]))
        example_road = Some example_road
   \<and> scan_roads (scanSectors example_nodes_at_two
        [[RoadItem example_road, TerrainItem example_terrain_at_two]] []) = [example_road]"
proof -
  have n: "example_nodes_at_two (startNodeUid example_road) = Some (example_node 1 0 0)"
    "example_nodes_at_two (endNodeUid example_road) = Some (example_node 2 100 0)"
    "example_nodes_at_two (startNodeUid example_terrain_at_two) = Some (example_node 8 2 0)"
    "example_nodes_at_two (endNodeUid example_terrain_at_two) = Some (example_node 2 100 0)"
    "maybeDivided example_road = None"
    by (simp_all add: example_nodes_at_two_def example_road_def example_terrain_at_two_def)
  have d: "distance (example_node 1 0 0) (example_node 8 2 0) = 2"
    "distance (example_node 2 100 0) (example_node 2 100 0) = 0"
    by (simp_all add: distance_def example_node_def)
  have f: "flagRoad example_nodes_at_two [DTerrain example_terrain_at_two] example_road
      = Some example_road"
    by (subst flagRoad_cases [OF n(1,2)])
       (simp add: splitsRoad_iff n d distance_less_2 example_node_def)
  have p: "partitionItems [RoadItem example_road, TerrainItem example_terrain_at_two]
     = ([example_road], [DTerrain example_terrain_at_two])"
    by simp
  have s: "scan_roads (scanSectors example_nodes_at_two
        [[RoadItem example_road, TerrainItem example_terrain_at_two]] []) = [example_road]"
    by (simp add: scanSectors_def scan_roads_scanSector p f)
  from n d f s show ?thesis by (simp only: p snd_conv simp_thms)
qed

section \<open>Properties of the mileage targets and of the emitted nodes\<close>

lemma Math_round_nearest:
  "v - 1 / 2 < of_int (Math_round v) \<and> of_int (Math_round v) \<le> v + 1 / 2"
  unfolding Math_round_def by linarith

lemma floor_minus_one_real: "\<lfloor>- 1 :: real\<rfloor> = - 1"
  using floor_of_int [of "- 1", where ?'a = real] by simp

text \<open>
  C8, as amended. The field \<open>elevation\<close> holds, for each elevation UID whose node is
  found and in the order of the UIDs, the triple of that node's \<open>x\<close>, \<open>y\<close>, \<open>z\<close> each
  rounded by \<open>Math.round\<close> to the nearest integer (a tie going up). The field \<open>nodes\<close>
  holds the nodes found for the referenced UIDs as they are, in the order of the UIDs.
\<close>

theorem mapData_nodes_and_elevation:
  "mapData_elevation nodesByUid elevationNodeUids
     = map (\<lambda>n. [Math_round (node_x n), Math_round (node_y n), Math_round (node_z n)])
         (List.map_filter nodesByUid elevationNodeUids)
   \<and> v - 1 / 2 < of_int (Math_round v) \<and> of_int (Math_round v) \<le> v + 1 / 2
   \<and> mapData_nodes nodesByUid referencedNodeUids = List.map_filter nodesByUid referencedNodeUids"
  using Math_round_nearest [of v]
  by (simp add: mapData_elevation_def mapData_nodes_def lookupNodes_def)

theorem mapData_nodes_and_elevation_witness:
  "mapData_elevation [7 \<mapsto> example_half_node] [3, 7] = [[1, 1, - 1]]
   \<and> mapData_nodes [7 \<mapsto> example_half_node] [3, 7] = [example_half_node]"
  using mapData_nodes_and_elevation [of "[7 \<mapsto> example_half_node]" "[3, 7]" 0 "[3, 7]"]
  by (simp add: Math_round_def example_half_node_def floor_minus_one_real)

text \<open>
  C8 as stated fails for the field \<open>nodes\<close>: a referenced node at \<open>x = 1/2\<close> is emitted
  as it is, with \<open>x = 1/2\<close>, not with the rounded coordinate 1.
\<close>

theorem mapData_nodes_counterexample:
  "mapData_nodes [7 \<mapsto> example_half_node] [7] = [example_half_node]
   \<and> node_x (hd (mapData_nodes [7 \<mapsto> example_half_node] [7])) = 1 / 2
   \<and> node_x (hd (mapData_nodes [7 \<mapsto> example_half_node] [7]))
        \<noteq> of_int (Math_round (node_x example_half_node))"
  by (simp add: mapData_nodes_def lookupNodes_def Math_round_def example_half_node_def)

lemma round2_error:
  assumes "\<bar>fmul v 100 - v * 100\<bar> \<le> d1"
    and "\<bar>fdiv (of_int (Math_round (fmul v 100))) 100 - of_int (Math_round (fmul v 100)) / 100\<bar> \<le> d2"
  shows "\<bar>round2 fmul fdiv v - v\<bar> \<le> 1 / 200 + d1 / 100 + d2"
proof -
  define m where "m = fmul v 100"
  define k :: real where "k = of_int (Math_round m)"
  define r where "r = fdiv k 100"
  from Math_round_nearest [of m] have b: "m - 1 / 2 < k" "k \<le> m + 1 / 2"
    by (simp_all add: k_def)
  from assms(1) have a1: "m - v * 100 \<le> d1" "- (m - v * 100) \<le> d1"
    by (simp_all add: m_def abs_le_iff)
  from assms(2) have a2: "r - k / 100 \<le> d2" "- (r - k / 100) \<le> d2"
    by (simp_all add: r_def k_def m_def abs_le_iff)
  have "r - v \<le> 1 / 200 + d1 / 100 + d2" "- (r - v) \<le> 1 / 200 + d1 / 100 + d2"
    using b a1 a2 by linarith+
  then have "\<bar>r - v\<bar> \<le> 1 / 200 + d1 / 100 + d2"
    by (rule abs_leI)
  then show ?thesis by (simp add: round2_def r_def k_def m_def)
qed

lemma round2_exact:
  assumes "fmul v 100 = v * 100"
    and "fdiv (of_int (Math_round (v * 100))) 100 = of_int (Math_round (v * 100)) / 100"
  shows "round2 fmul fdiv v * 100 = of_int (Math_round (v * 100))"
  using assms by (simp add: round2_def)

text \<open>
  C9, as amended. A mileage target whose \<open>x\<close> and \<open>y\<close> are not both present and nonzero,
  and that carries a nonzero node UID whose node exists, is replaced by one without the
  node UID whose \<open>x\<close> and \<open>y\<close> are \<open>Math.round(c * 100) / 100\<close> of the node's coordinates
  \<open>c\<close>, computed with the double multiplication and division: the coordinate rounded to
  2 decimal places up to the rounding of these two operations (at most 1/200 away plus
  their two errors, and exactly the multiple of 1/100 when both are exact). A target whose
  \<open>x\<close> and \<open>y\<close> are both present and nonzero, or that has no node UID or the node UID 0, or
  whose node is not found, is left unchanged. The pass keeps the tokens and their order.
\<close>

theorem augmentTarget_by_truthiness:
  "(\<not> (\<exists>vx vy. target_x t = Some vx \<and> vx \<noteq> 0 \<and> target_y t = Some vy \<and> vy \<noteq> 0)
      \<and> target_nodeUid t = Some u \<and> u \<noteq> 0 \<and> nodesByUid u = Some n \<longrightarrow>
      augmentTarget fmul fdiv nodesByUid t
        = t\<lparr>target_nodeUid := None,
            target_x := Some (fdiv (of_int (Math_round (fmul (node_x n) 100))) 100),
            target_y := Some (fdiv (of_int (Math_round (fmul (node_y n) 100))) 100)\<rparr>)
   \<and> ((\<exists>vx vy. target_x t = Some vx \<and> vx \<noteq> 0 \<and> target_y t = Some vy \<and> vy \<noteq> 0)
       \<or> target_nodeUid t = None \<or> target_nodeUid t = Some 0
       \<or> (\<exists>w. target_nodeUid t = Some w \<and> nodesByUid w = None) \<longrightarrow>
      augmentTarget fmul fdiv nodesByUid t = t)
   \<and> (\<bar>fmul v 100 - v * 100\<bar> \<le> d1
       \<and> \<bar>fdiv (of_int (Math_round (fmul v 100))) 100
            - of_int (Math_round (fmul v 100)) / 100\<bar> \<le> d2 \<longrightarrow>
      \<bar>fdiv (of_int (Math_round (fmul v 100))) 100 - v\<bar> \<le> 1 / 200 + d1 / 100 + d2)
   \<and> (fmul v 100 = v * 100
       \<and> fdiv (of_int (Math_round (v * 100))) 100 = of_int (Math_round (v * 100)) / 100 \<longrightarrow>
      fdiv (of_int (Math_round (fmul v 100))) 100 * 100 = of_int (Math_round (v * 100))
      \<and> \<bar>fdiv (of_int (Math_round (fmul v 100))) 100 - v\<bar> \<le> 1 / 200)
   \<and> map fst (augmentMileageTargets fmul fdiv nodesByUid targets) = map fst targets
   \<and> map snd (augmentMileageTargets fmul fdiv nodesByUid targets)
        = map (augmentTarget fmul fdiv nodesByUid) (map snd targets)"
proof -
  have a: "augmentTarget fmul fdiv nodesByUid t
        = t\<lparr>target_nodeUid := None,
            target_x := Some (fdiv (of_int (Math_round (fmul (node_x n) 100))) 100),
            target_y := Some (fdiv (of_int (Math_round (fmul (node_y n) 100))) 100)\<rparr>"
    if "\<not> (\<exists>vx vy. target_x t = Some vx \<and> vx \<noteq> 0 \<and> target_y t = Some vy \<and> vy \<noteq> 0)"
      "target_nodeUid t = Some u" "u \<noteq> 0" "nodesByUid u = Some n"
    using that
    by (auto simp: augmentTarget_def round2_def truthy_number_def truthy_bigint_def
          split: option.splits)
  have b: "augmentTarget fmul fdiv nodesByUid t = t"
    if "(\<exists>vx vy. target_x t = Some vx \<and> vx \<noteq> 0 \<and> target_y t = Some vy \<and> vy \<noteq> 0)
       \<or> target_nodeUid t = None \<or> target_nodeUid t = Some 0
       \<or> (\<exists>w. target_nodeUid t = Some w \<and> nodesByUid w = None)"
    using that
    by (auto simp: augmentTarget_def truthy_number_def truthy_bigint_def split: option.splits)
  have c: "map fst (augmentMileageTargets fmul fdiv nodesByUid targets) = map fst targets"
    "map snd (augmentMileageTargets fmul fdiv nodesByUid targets)
        = map (augmentTarget fmul fdiv nodesByUid) (map snd targets)"
    by (simp_all add: augmentMileageTargets_def case_prod_unfold comp_def)
  have d: "\<bar>fdiv (of_int (Math_round (fmul v 100))) 100 - v\<bar> \<le> 1 / 200 + d1 / 100 + d2"
    if "\<bar>fmul v 100 - v * 100\<bar> \<le> d1"
      "\<bar>fdiv (of_int (Math_round (fmul v 100))) 100
            - of_int (Math_round (fmul v 100)) / 100\<bar> \<le> d2"
    using round2_error [where fmul = fmul and fdiv = fdiv and v = v and ?d1.0 = d1
        and ?d2.0 = d2, OF that]
    by (simp add: round2_def)
  have e: "fdiv (of_int (Math_round (fmul v 100))) 100 * 100 = of_int (Math_round (v * 100))
      \<and> \<bar>fdiv (of_int (Math_round (fmul v 100))) 100 - v\<bar> \<le> 1 / 200"
    if x: "fmul v 100 = v * 100"
      "fdiv (of_int (Math_round (v * 100))) 100 = of_int (Math_round (v * 100)) / 100"
  proof -
    from x have "\<bar>fmul v 100 - v * 100\<bar> \<le> 0"
      "\<bar>fdiv (of_int (Math_round (fmul v 100))) 100
            - of_int (Math_round (fmul v 100)) / 100\<bar> \<le> 0"
      by simp_all
    from round2_error [where fmul = fmul and fdiv = fdiv and v = v and ?d1.0 = 0
        and ?d2.0 = 0, OF this]
      round2_exact [where fmul = fmul and fdiv = fdiv and v = v, OF x]
    show ?thesis
      by (simp add: round2_def)
  qed
  from a b c d e show ?thesis by blast
qed

lemma ex_round:
  "Math_round (example_fmul example_double_2675 100) = 268"
  "example_fdiv (of_int (Math_round (example_fmul example_double_2675 100))) 100
     = example_double_268"
  "example_fdiv (of_int (Math_round (example_fmul (5 / 4) 100))) 100 = 5 / 4"
  "example_fdiv (of_int (Math_round (example_fmul (1 / 2) 100))) 100 = 1 / 2"
  by (simp_all add: example_fmul_def example_fdiv_def Math_round_def example_double_2675_def)

lemma ex_round_errors:
  "\<bar>example_fmul example_double_2675 100 - example_double_2675 * 100\<bar> \<le> 5 / 2 ^ 48"
  "\<bar>example_double_268 - 268 / 100\<bar> \<le> 9 / 56294995342131200"
  "example_double_268 \<noteq> 267 / 100"
  "\<lfloor>example_double_2675 * 100 + 1 / 2\<rfloor> = 267"
  by (simp_all add: example_fmul_def example_double_2675_def example_double_268_def)

lemma ex_fdiv_268:
  "example_fdiv (real_of_int 268) 100 = example_double_268"
  "example_fdiv 268 100 = example_double_268"
  by (simp_all add: example_fdiv_def)

lemma ex_node_2675:
  "node_x example_node_2675 = example_double_2675" "node_y example_node_2675 = 5 / 4"
  "node_x example_half_node = 1 / 2" "node_y example_half_node = 5 / 4"
  by (simp_all add: example_node_2675_def example_half_node_def)

lemma ex_targets:
  "target_x example_target_bare = None" "target_y example_target_bare = None"
  "target_nodeUid example_target_bare = Some 7"
  "target_x example_target_placed = Some 3" "target_y example_target_placed = Some 5"
  "target_x example_target = Some 0" "target_y example_target = Some 5"
  "target_nodeUid example_target = Some 7"
  by (simp_all add: example_target_bare_def example_target_placed_def example_target_def)

theorem augmentTarget_by_truthiness_witness:
  "target_x example_target_bare = None \<and> target_nodeUid example_target_bare = Some 7
   \<and> (7 :: bigint64) \<noteq> 0
   \<and> [7 \<mapsto> example_node_2675] (7 :: bigint64) = Some example_node_2675
   \<and> augmentTarget example_fmul example_fdiv [7 \<mapsto> example_node_2675] example_target_bare
       = example_target_bare\<lparr>target_nodeUid := None, target_x := Some example_double_268,
           target_y := Some (5 / 4)\<rparr>
   \<and> \<bar>example_fmul example_double_2675 100 - example_double_2675 * 100\<bar> \<le> 5 / 2 ^ 48
   \<and> \<bar>example_double_268 - 268 / 100\<bar> \<le> 9 / 56294995342131200
   \<and> \<bar>example_double_268 - example_double_2675\<bar>
        \<le> 1 / 200 + (5 / 2 ^ 48) / 100 + 9 / 56294995342131200
   \<and> \<lfloor>example_double_2675 * 100 + 1 / 2\<rfloor> = 267 \<and> example_double_268 \<noteq> 267 / 100
   \<and> target_x example_target_placed = Some 3 \<and> target_y example_target_placed = Some 5
   \<and> augmentTarget example_fmul example_fdiv [7 \<mapsto> example_node_2675] example_target_placed
       = example_target_placed"
proof -
  note t1 = augmentTarget_by_truthiness [where t = example_target_bare and u = 7
      and nodesByUid = "[7 \<mapsto> example_node_2675]" and n = example_node_2675
      and fmul = example_fmul and fdiv = example_fdiv and v = example_double_2675
      and ?d1.0 = "5 / 2 ^ 48" and ?d2.0 = "9 / 56294995342131200" and targets = "[]"]
  note t2 = augmentTarget_by_truthiness [where t = example_target_placed and u = 7
      and nodesByUid = "[7 \<mapsto> example_node_2675]" and n = example_node_2675
      and fmul = example_fmul and fdiv = example_fdiv and v = example_double_2675
      and ?d1.0 = "5 / 2 ^ 48" and ?d2.0 = "9 / 56294995342131200" and targets = "[]"]
  have h1: "\<not> (\<exists>vx vy. target_x example_target_bare = Some vx \<and> vx \<noteq> 0
                \<and> target_y example_target_bare = Some vy \<and> vy \<noteq> 0)
      \<and> target_nodeUid example_target_bare = Some 7 \<and> (7 :: bigint64) \<noteq> 0
      \<and> [7 \<mapsto> example_node_2675] (7 :: bigint64) = Some example_node_2675"
    by (simp add: ex_targets)
  from t1 [THEN conjunct1, THEN mp, OF h1]
  have a: "augmentTarget example_fmul example_fdiv [7 \<mapsto> example_node_2675] example_target_bare
       = example_target_bare\<lparr>target_nodeUid := None, target_x := Some example_double_268,
           target_y := Some (5 / 4)\<rparr>"
    by (simp add: ex_node_2675 ex_round ex_fdiv_268)
  have h3: "\<bar>example_fmul example_double_2675 100 - example_double_2675 * 100\<bar> \<le> 5 / 2 ^ 48
       \<and> \<bar>example_fdiv (of_int (Math_round (example_fmul example_double_2675 100))) 100
            - of_int (Math_round (example_fmul example_double_2675 100)) / 100\<bar>
          \<le> 9 / 56294995342131200"
    using ex_round_errors(1,2) by (simp add: ex_round ex_fdiv_268)
  from t1 [THEN conjunct2, THEN conjunct2, THEN conjunct1, THEN mp, OF h3]
  have d: "\<bar>example_double_268 - example_double_2675\<bar>
        \<le> 1 / 200 + (5 / 2 ^ 48) / 100 + 9 / 56294995342131200"
    by (simp add: ex_round ex_fdiv_268)
  have h2: "(\<exists>vx vy. target_x example_target_placed = Some vx \<and> vx \<noteq> 0
                \<and> target_y example_target_placed = Some vy \<and> vy \<noteq> 0)
       \<or> target_nodeUid example_target_placed = None
       \<or> target_nodeUid example_target_placed = Some 0
       \<or> (\<exists>w. target_nodeUid example_target_placed = Some w
              \<and> [7 \<mapsto> example_node_2675] w = None)"
    by (simp add: ex_targets)
  from t2 [THEN conjunct2, THEN conjunct1, THEN mp, OF h2]
  have b: "augmentTarget example_fmul example_fdiv [7 \<mapsto> example_node_2675]
        example_target_placed = example_target_placed" .
  from a b d ex_round_errors ex_targets show ?thesis by simp
qed

text \<open>
  C9 as stated fails: a target with the explicit coordinates \<open>(0, 5)\<close> and a node UID
  whose node exists is not left unchanged; it loses the node UID and takes the node's
  position (here \<open>(1/2, 5/4)\<close>, where the double operations are exact).
\<close>

theorem augmentTarget_counterexample:
  "target_x example_target = Some 0 \<and> target_y example_target = Some 5
   \<and> augmentTarget example_fmul example_fdiv [7 \<mapsto> example_half_node] example_target
       = \<lparr>target_x = Some (1 / 2), target_y = Some (5 / 4), target_nodeUid = None\<rparr>
   \<and> augmentTarget example_fmul example_fdiv [7 \<mapsto> example_half_node] example_target
       \<noteq> example_target"
proof -
  have "augmentTarget example_fmul example_fdiv [7 \<mapsto> example_half_node] example_target
       = \<lparr>target_x = Some (1 / 2), target_y = Some (5 / 4), target_nodeUid = None\<rparr>"
    by (simp add: augmentTarget_def round2_def truthy_number_def truthy_bigint_def
          ex_node_2675 ex_round example_target_def)
  then show ?thesis by (simp add: example_target_def)
qed

end
